theory Spec2Isabelle
  imports Complex_Main "HOL-Library.Sublist"
begin

chapter \<open>The model\<close>

section \<open>JavaScript values\<close>

text \<open>
  A JavaScript number is a double. A finite double is represented by the rational it
  denotes; rounding, overflow and the negative zero are not modelled. \<open>NaN\<close> and the two
  infinities are values of their own, since \<open>parseFloat\<close>, \<open>isNaN\<close> and the comparisons of
  the source distinguish them.
\<close>

datatype jsnum = NaN | PosInf | NegInf | Fin rat

text \<open>
  A value as \<open>JSON.parse\<close> and the handlers see it. An object is the list of its own
  properties in insertion order, every key once. Strings are lists of 8-bit characters.
\<close>

datatype jsval =
    Undefined
  | Null
  | Bool bool
  | Num jsnum
  | Str string
  | Arr "jsval list"
  | Obj "(string \<times> jsval) list"

text \<open>\<open>ToBoolean\<close>: what \<open>!x\<close>, \<open>x || y\<close> and \<open>x ? a : b\<close> test.\<close>

fun truthy :: "jsval \<Rightarrow> bool" where
  "truthy Undefined = False"
| "truthy Null = False"
| "truthy (Bool b) = b"
| "truthy (Num NaN) = False"
| "truthy (Num (Fin r)) = (r \<noteq> 0)"
| "truthy (Num _) = True"
| "truthy (Str s) = (s \<noteq> [])"
| "truthy (Arr _) = True"
| "truthy (Obj _) = True"

text \<open>Property read \<open>o[k]\<close> on an object: \<open>undefined\<close> for a missing key.\<close>

definition get_prop :: "(string \<times> jsval) list \<Rightarrow> string \<Rightarrow> jsval" where
  "get_prop kvs k = (case map_of kvs k of None \<Rightarrow> Undefined | Some v \<Rightarrow> v)"

text \<open>Property write \<open>o[k] = v\<close>: in place for an existing key, appended otherwise.\<close>

fun set_prop :: "(string \<times> jsval) list \<Rightarrow> string \<Rightarrow> jsval \<Rightarrow> (string \<times> jsval) list" where
  "set_prop [] k v = [(k, v)]"
| "set_prop ((k', v') # kvs) k v =
     (if k' = k then (k, v) # kvs else (k', v') # set_prop kvs k v)"


section \<open>Conversation memory (langchainService.js)\<close>

text \<open>
  The entries of \<open>conversationMemory\<close>, tagged by their \<open>type\<close> field. A timestamp
  (\<open>new Date()\<close>) is the clock reading in milliseconds, passed in by the caller.
\<close>

datatype memory_item =
    Intent_detection string jsval nat
  | Conversation string string nat
  | Pending_extracted_data jsval nat

fun is_pending :: "memory_item \<Rightarrow> bool" where
  "is_pending (Pending_extracted_data _ _) = True"
| "is_pending _ = False"

type_synonym memory_store = "string \<Rightarrow> memory_item list option"

text \<open>The template literal \<open>`${userId}-${conversationId}`\<close>.\<close>

definition memory_key :: "string \<Rightarrow> string \<Rightarrow> string" where
  "memory_key userId conversationId = userId @ ''-'' @ conversationId"

text \<open>\<open>conversationMemory.get(key) || []\<close>\<close>

definition get_or_empty :: "memory_store \<Rightarrow> string \<Rightarrow> memory_item list" where
  "get_or_empty conversationMemory key =
     (case conversationMemory key of None \<Rightarrow> [] | Some memory \<Rightarrow> memory)"

text \<open>\<open>memory.splice(0, memory.length - 20)\<close> under the guard \<open>memory.length > 20\<close>.\<close>

definition addToConversationMemory ::
  "string \<Rightarrow> string \<Rightarrow> memory_item \<Rightarrow> memory_store \<Rightarrow> memory_store" where
  "addToConversationMemory userId conversationId item conversationMemory =
     (let key = memory_key userId conversationId;
          memory = get_or_empty conversationMemory key @ [item];
          memory' = (if length memory > 20 then drop (length memory - 20) memory else memory)
      in conversationMemory(key \<mapsto> memory'))"

definition clearConversationMemory :: "string \<Rightarrow> string \<Rightarrow> memory_store \<Rightarrow> memory_store" where
  "clearConversationMemory userId conversationId conversationMemory =
     conversationMemory(memory_key userId conversationId := None)"

definition setPendingExtractedData ::
  "string \<Rightarrow> string \<Rightarrow> jsval \<Rightarrow> nat \<Rightarrow> memory_store \<Rightarrow> memory_store" where
  "setPendingExtractedData userId conversationId data now conversationMemory =
     (let key = memory_key userId conversationId;
          memory = get_or_empty conversationMemory key;
          filtered = filter (\<lambda>item. \<not> is_pending item) memory
      in conversationMemory(key \<mapsto> filtered @ [Pending_extracted_data data now]))"

fun pending_data :: "memory_item option \<Rightarrow> jsval" where
  "pending_data (Some (Pending_extracted_data d _)) = d"
| "pending_data _ = Null"

definition getPendingExtractedData :: "string \<Rightarrow> string \<Rightarrow> memory_store \<Rightarrow> jsval" where
  "getPendingExtractedData userId conversationId conversationMemory =
     (let key = memory_key userId conversationId;
          memory = get_or_empty conversationMemory key
      in pending_data (find is_pending memory))"

definition clearPendingExtractedData :: "string \<Rightarrow> string \<Rightarrow> memory_store \<Rightarrow> memory_store" where
  "clearPendingExtractedData userId conversationId conversationMemory =
     (let key = memory_key userId conversationId;
          memory = get_or_empty conversationMemory key;
          filtered = filter (\<lambda>item. \<not> is_pending item) memory
      in conversationMemory(key \<mapsto> filtered))"

text \<open>
  The operations that reach one conversation's memory through the module's functions:
  \<open>detectIntent\<close> and \<open>generateConversationalResponse\<close> append an entry of their own type
  (\<open>addToConversationMemory\<close> is not exported), the other three are exported as they are.
\<close>

datatype memory_op =
    Add_intent_detection string jsval nat
  | Add_conversation string string nat
  | Set_pending jsval nat
  | Clear_pending
  | Clear_memory

fun apply_memory_op :: "string \<times> string \<times> memory_op \<Rightarrow> memory_store \<Rightarrow> memory_store" where
  "apply_memory_op (u, c, Add_intent_detection m i t) cm =
     addToConversationMemory u c (Intent_detection m i t) cm"
| "apply_memory_op (u, c, Add_conversation m r t) cm =
     addToConversationMemory u c (Conversation m r t) cm"
| "apply_memory_op (u, c, Set_pending d t) cm = setPendingExtractedData u c d t cm"
| "apply_memory_op (u, c, Clear_pending) cm = clearPendingExtractedData u c cm"
| "apply_memory_op (u, c, Clear_memory) cm = clearConversationMemory u c cm"

text \<open>A run of the module: operations on any conversations, in the order of the calls.\<close>

fun run_memory_ops :: "(string \<times> string \<times> memory_op) list \<Rightarrow> memory_store \<Rightarrow> memory_store" where
  "run_memory_ops [] cm = cm"
| "run_memory_ops (x # xs) cm = run_memory_ops xs (apply_memory_op x cm)"

text \<open>\<open>new Map()\<close>: the store when the module is loaded.\<close>

definition empty_memory :: memory_store where
  "empty_memory = (\<lambda>key. None)"

text \<open>Appending a list of entries to one key, oldest first.\<close>

fun append_all :: "string \<Rightarrow> string \<Rightarrow> memory_item list \<Rightarrow> memory_store \<Rightarrow> memory_store" where
  "append_all u c [] cm = cm"
| "append_all u c (x # xs) cm = append_all u c xs (addToConversationMemory u c x cm)"

definition pending_count :: "memory_store \<Rightarrow> string \<Rightarrow> nat" where
  "pending_count cm key = length (filter is_pending (get_or_empty cm key))"


section \<open>\<open>JSON.parse\<close>\<close>

text \<open>
  The built-in \<open>JSON.parse\<close>, after the JSON grammar (ECMA-404): a lexer, one character
  at a time, then a parser with an explicit stack of the open arrays and objects. \<open>None\<close>
  is the \<open>SyntaxError\<close> the built-in throws. A \<open>\u\<close> escape that denotes a code unit
  above 255 has no place in the 8-bit strings of this model and is refused.
\<close>

datatype token =
    TLBrace | TRBrace | TLBrack | TRBrack | TColon | TComma
  | TStr string | TNum string | TWord string

datatype lex_state =
    LStart
  | LString string
  | LEscape string
  | LUnicode string string
  | LNumber string
  | LWord string

definition json_space :: "char \<Rightarrow> bool" where
  "json_space c = (c \<in> {CHR 0x20, CHR 0x09, CHR 0x0A, CHR 0x0D})"

definition is_digit :: "char \<Rightarrow> bool" where
  "is_digit c = (c \<in> set ''0123456789'')"

definition is_hex :: "char \<Rightarrow> bool" where
  "is_hex c = (c \<in> set ''0123456789abcdefABCDEF'')"

definition is_lower :: "char \<Rightarrow> bool" where
  "is_lower c = (c \<in> set ''abcdefghijklmnopqrstuvwxyz'')"

definition is_upper :: "char \<Rightarrow> bool" where
  "is_upper c = (c \<in> set ''ABCDEFGHIJKLMNOPQRSTUVWXYZ'')"

definition number_char :: "char \<Rightarrow> bool" where
  "number_char c = (is_digit c \<or> c \<in> set ''-+.eE'')"

definition digit_val :: "char \<Rightarrow> int" where
  "digit_val c = of_char c - 48"

definition hex_val :: "char \<Rightarrow> int" where
  "hex_val c =
     (if is_digit c then of_char c - 48
      else if is_lower c then of_char c - 87
      else of_char c - 55)"

definition digits_val :: "string \<Rightarrow> int" where
  "digits_val ds = foldl (\<lambda>n c. 10 * n + digit_val c) 0 ds"

definition hex_digits_val :: "string \<Rightarrow> int" where
  "hex_digits_val ds = foldl (\<lambda>n c. 16 * n + hex_val c) 0 ds"

text \<open>The tokens that end when a character that cannot continue them arrives.\<close>

fun pending_token :: "lex_state \<Rightarrow> token list option" where
  "pending_token LStart = Some []"
| "pending_token (LNumber acc) = Some [TNum acc]"
| "pending_token (LWord acc) = Some [TWord acc]"
| "pending_token _ = None"

text \<open>A character met between tokens: the state it opens and the token it is, if any.\<close>

definition lex_start :: "char \<Rightarrow> (lex_state \<times> token list) option" where
  "lex_start c =
     (if json_space c then Some (LStart, [])
      else if c = CHR ''{'' then Some (LStart, [TLBrace])
      else if c = CHR ''}'' then Some (LStart, [TRBrace])
      else if c = CHR ''['' then Some (LStart, [TLBrack])
      else if c = CHR '']'' then Some (LStart, [TRBrack])
      else if c = CHR '':'' then Some (LStart, [TColon])
      else if c = CHR '','' then Some (LStart, [TComma])
      else if c = CHR 0x22 then Some (LString [], [])
      else if c = CHR ''-'' \<or> is_digit c then Some (LNumber [c], [])
      else if is_lower c then Some (LWord [c], [])
      else None)"

definition unescape :: "char \<Rightarrow> char option" where
  "unescape c =
     (if c = CHR 0x22 \<or> c = CHR 0x5C \<or> c = CHR ''/'' then Some c
      else if c = CHR ''b'' then Some (CHR 0x08)
      else if c = CHR ''f'' then Some (CHR 0x0C)
      else if c = CHR ''n'' then Some (CHR 0x0A)
      else if c = CHR ''r'' then Some (CHR 0x0D)
      else if c = CHR ''t'' then Some (CHR 0x09)
      else None)"

fun lex :: "lex_state \<Rightarrow> string \<Rightarrow> token list option" where
  "lex st [] = pending_token st"
| "lex (LString acc) (c # cs) =
     (if c = CHR 0x22 then map_option ((#) (TStr acc)) (lex LStart cs)
      else if c = CHR 0x5C then lex (LEscape acc) cs
      else if (of_char c :: nat) < 32 then None
      else lex (LString (acc @ [c])) cs)"
| "lex (LEscape acc) (c # cs) =
     (if c = CHR ''u'' then lex (LUnicode acc []) cs
      else (case unescape c of None \<Rightarrow> None | Some d \<Rightarrow> lex (LString (acc @ [d])) cs))"
| "lex (LUnicode acc hs) (c # cs) =
     (if \<not> is_hex c then None
      else if length hs < 3 then lex (LUnicode acc (hs @ [c])) cs
      else if hex_digits_val (hs @ [c]) < 256
        then lex (LString (acc @ [char_of (hex_digits_val (hs @ [c]))])) cs
      else None)"
| "lex (LNumber acc) (c # cs) =
     (if number_char c then lex (LNumber (acc @ [c])) cs
      else (case lex_start c of None \<Rightarrow> None
            | Some (st, ts) \<Rightarrow> map_option (\<lambda>r. TNum acc # ts @ r) (lex st cs)))"
| "lex (LWord acc) (c # cs) =
     (if is_lower c then lex (LWord (acc @ [c])) cs
      else (case lex_start c of None \<Rightarrow> None
            | Some (st, ts) \<Rightarrow> map_option (\<lambda>r. TWord acc # ts @ r) (lex st cs)))"
| "lex LStart (c # cs) =
     (case lex_start c of None \<Rightarrow> None
      | Some (st, ts) \<Rightarrow> map_option (\<lambda>r. ts @ r) (lex st cs))"

text \<open>
  A number token: \<open>-? (0 | [1-9][0-9]*) (. [0-9]+)? ([eE] [+-]? [0-9]+)?\<close>, and the
  rational it denotes.
\<close>

definition json_exponent :: "string \<Rightarrow> int option" where
  "json_exponent s =
     (case s of
        [] \<Rightarrow> Some 0
      | c # r \<Rightarrow>
          if c = CHR ''e'' \<or> c = CHR ''E'' then
            (let neg = (r \<noteq> [] \<and> hd r = CHR ''-'');
                 ds = (if r \<noteq> [] \<and> (hd r = CHR ''-'' \<or> hd r = CHR ''+'') then tl r else r)
             in if ds \<noteq> [] \<and> list_all is_digit ds
                then Some (if neg then - digits_val ds else digits_val ds)
                else None)
          else None)"

definition scale10 :: "rat \<Rightarrow> int \<Rightarrow> rat" where
  "scale10 r e = (if e < 0 then r / 10 ^ nat (- e) else r * 10 ^ nat e)"

definition json_number :: "string \<Rightarrow> rat option" where
  "json_number s =
     (let neg = (s \<noteq> [] \<and> hd s = CHR ''-'');
          s1 = (if neg then tl s else s);
          ip = takeWhile is_digit s1;
          s2 = dropWhile is_digit s1;
          has_frac = (s2 \<noteq> [] \<and> hd s2 = CHR ''.'');
          fp = (if has_frac then takeWhile is_digit (tl s2) else []);
          s3 = (if has_frac then dropWhile is_digit (tl s2) else s2)
      in if ip = [] \<or> (hd ip = CHR ''0'' \<and> length ip > 1) \<or> (has_frac \<and> fp = []) then None
         else (case json_exponent s3 of
                 None \<Rightarrow> None
               | Some e \<Rightarrow>
                   (let m = scale10 (of_int (digits_val (ip @ fp))) (e - int (length fp))
                    in Some (if neg then - m else m))))"

text \<open>
  The parser. A frame is an open array with its elements so far, or an open object with
  its properties so far and the key whose value is being read. The mode says what may
  come next.
\<close>

datatype frame = FArr "jsval list" | FObj "(string \<times> jsval) list" string

datatype parse_mode =
    MValue | MArrFirst | MAfterElement
  | MObjFirst | MObjKey | MColon | MAfterMember
  | MDone jsval

text \<open>A value is complete: it goes to the innermost open array or object.\<close>

fun complete :: "jsval \<Rightarrow> frame list \<Rightarrow> parse_mode \<times> frame list" where
  "complete v [] = (MDone v, [])"
| "complete v (FArr vs # fs) = (MAfterElement, FArr (vs @ [v]) # fs)"
| "complete v (FObj kvs k # fs) = (MAfterMember, FObj (set_prop kvs k v) k # fs)"

definition word_value :: "string \<Rightarrow> jsval option" where
  "word_value w =
     (if w = ''true'' then Some (Bool True)
      else if w = ''false'' then Some (Bool False)
      else if w = ''null'' then Some Null
      else None)"

fun start_value :: "token \<Rightarrow> frame list \<Rightarrow> (parse_mode \<times> frame list) option" where
  "start_value TLBrack fs = Some (MArrFirst, FArr [] # fs)"
| "start_value TLBrace fs = Some (MObjFirst, FObj [] [] # fs)"
| "start_value (TStr s) fs = Some (complete (Str s) fs)"
| "start_value (TNum n) fs = map_option (\<lambda>r. complete (Num (Fin r)) fs) (json_number n)"
| "start_value (TWord w) fs = map_option (\<lambda>v. complete v fs) (word_value w)"
| "start_value _ fs = None"

fun parse_step :: "parse_mode \<Rightarrow> frame list \<Rightarrow> token \<Rightarrow> (parse_mode \<times> frame list) option" where
  "parse_step MValue fs t = start_value t fs"
| "parse_step MArrFirst (FArr vs # fs) TRBrack = Some (complete (Arr vs) fs)"
| "parse_step MArrFirst fs t = start_value t fs"
| "parse_step MAfterElement fs TComma = Some (MValue, fs)"
| "parse_step MAfterElement (FArr vs # fs) TRBrack = Some (complete (Arr vs) fs)"
| "parse_step MObjFirst (FObj kvs k # fs) TRBrace = Some (complete (Obj kvs) fs)"
| "parse_step MObjFirst (FObj kvs k # fs) (TStr s) = Some (MColon, FObj kvs s # fs)"
| "parse_step MObjKey (FObj kvs k # fs) (TStr s) = Some (MColon, FObj kvs s # fs)"
| "parse_step MColon fs TColon = Some (MValue, fs)"
| "parse_step MAfterMember fs TComma = Some (MObjKey, fs)"
| "parse_step MAfterMember (FObj kvs k # fs) TRBrace = Some (complete (Obj kvs) fs)"
| "parse_step _ _ _ = None"

fun parse_tokens :: "parse_mode \<Rightarrow> frame list \<Rightarrow> token list \<Rightarrow> jsval option" where
  "parse_tokens (MDone v) fs [] = Some v"
| "parse_tokens m fs [] = None"
| "parse_tokens m fs (t # ts) =
     (case parse_step m fs t of None \<Rightarrow> None | Some (m', fs') \<Rightarrow> parse_tokens m' fs' ts)"

definition JSON_parse :: "string \<Rightarrow> jsval option" where
  "JSON_parse text = (case lex LStart text of None \<Rightarrow> None | Some ts \<Rightarrow> parse_tokens MValue [] ts)"


section \<open>Errors and the platform\<close>

text \<open>A thrown \<open>Error\<close> object, by its constructor, with its \<open>message\<close>.\<close>

datatype js_error =
    Error string
  | TypeError string
  | ReferenceError string
  | RangeError string

fun error_message :: "js_error \<Rightarrow> string" where
  "error_message (Error m) = m"
| "error_message (TypeError m) = m"
| "error_message (ReferenceError m) = m"
| "error_message (RangeError m) = m"

text \<open>
  What the source reads from the JavaScript engine and the clock and does not compute
  itself: the text of the \<open>SyntaxError\<close> that \<open>JSON.parse\<close> throws on an input; the
  time value, in milliseconds, that \<open>new Date(s)\<close> gets for a string whose reading
  ECMAScript leaves to the implementation (\<open>None\<close> for an invalid date); the date a number
  of days after a date, as \<open>setDate\<close> in the local time zone and \<open>toISOString\<close> give it
  (\<open>None\<close> for the \<open>RangeError\<close> on an invalid date); and the clock reading
  \<open>new Date().toISOString()\<close>.
\<close>

record platform =
  syntax_error_message :: "string \<Rightarrow> string"
  legacy_date_parse :: "string \<Rightarrow> int option"
  date_plus_days :: "string \<Rightarrow> nat \<Rightarrow> string option"
  now_iso :: string

section \<open>Strings\<close>

text \<open>
  The white space of \<open>String.prototype.trim\<close> and of \<open>\s\<close> in a regular expression,
  among the code units below 256.
\<close>

definition js_space :: "char \<Rightarrow> bool" where
  "js_space c = (c \<in> {CHR 0x09, CHR 0x0A, CHR 0x0B, CHR 0x0C, CHR 0x0D, CHR 0x20, CHR 0xA0})"

definition js_trim :: "string \<Rightarrow> string" where
  "js_trim s = rev (dropWhile js_space (rev (dropWhile js_space s)))"

definition startsWith :: "string \<Rightarrow> string \<Rightarrow> bool" where
  "startsWith s p = (take (length p) s = p)"

definition endsWith :: "string \<Rightarrow> string \<Rightarrow> bool" where
  "endsWith s p = (length p \<le> length s \<and> drop (length s - length p) s = p)"

fun js_includes :: "string \<Rightarrow> string \<Rightarrow> bool" where
  "js_includes [] p = (p = [])"
| "js_includes (c # cs) p = (startsWith (c # cs) p \<or> js_includes cs p)"

section \<open>The response parsers (langchainService.js)\<close>

text \<open>
  \<open>s.replace(/^```json\s*/, '')\<close> and \<open>s.replace(/^```\s*/, '')\<close> on a string that starts
  with the fence: the fence and the white space after it go. \<open>s.replace(/\s*```$/, '')\<close>:
  when the string ends with three backquotes, they and the white space before them go;
  otherwise nothing matches.
\<close>

definition strip_leading :: "string \<Rightarrow> string \<Rightarrow> string" where
  "strip_leading fence s =
     (if startsWith s fence then dropWhile js_space (drop (length fence) s) else s)"

definition strip_closing_fence :: "string \<Rightarrow> string" where
  "strip_closing_fence s =
     (if endsWith s ''```'' then rev (dropWhile js_space (drop 3 (rev s))) else s)"

definition parseGeminiResponse :: "platform \<Rightarrow> string \<Rightarrow> js_error + jsval" where
  "parseGeminiResponse P response =
     (let cleanedResponse = js_trim response;
          cleanedResponse =
            (if startsWith cleanedResponse ''```json''
               then strip_closing_fence (strip_leading ''```json'' cleanedResponse)
             else if startsWith cleanedResponse ''```''
               then strip_closing_fence (strip_leading ''```'' cleanedResponse)
             else cleanedResponse)
      in case JSON_parse (js_trim cleanedResponse) of
           Some v \<Rightarrow> Inr v
         | None \<Rightarrow>
             Inl (Error (''Failed to parse AI response as JSON: '' @
                         syntax_error_message P (js_trim cleanedResponse))))"

text \<open>
  The loop of \<open>extractValidJson\<close>, from the first brace on: \<open>seen\<close> is the text between
  \<open>firstBrace\<close> and \<open>i\<close>. It returns \<open>trimmed.substring(firstBrace, i + 1)\<close> where the brace
  count comes back to zero, and \<open>None\<close> when the loop ends without that.
\<close>

fun scan_object :: "string \<Rightarrow> int \<Rightarrow> bool \<Rightarrow> bool \<Rightarrow> string \<Rightarrow> string option" where
  "scan_object seen braceCount inString escapeNext [] = None"
| "scan_object seen braceCount inString escapeNext (char # rest) =
     (if escapeNext then scan_object (seen @ [char]) braceCount inString False rest
      else if char = CHR 0x5C then scan_object (seen @ [char]) braceCount inString True rest
      else if char = CHR 0x22 then scan_object (seen @ [char]) braceCount (\<not> inString) False rest
      else if \<not> inString then
        (if char = CHR ''{'' then scan_object (seen @ [char]) (braceCount + 1) inString False rest
         else if char = CHR ''}'' then
           (if braceCount - 1 = 0 then Some (seen @ [char])
            else scan_object (seen @ [char]) (braceCount - 1) inString False rest)
         else scan_object (seen @ [char]) braceCount inString False rest)
      else scan_object (seen @ [char]) braceCount inString False rest)"

text \<open>\<open>null\<close> is the failure of \<open>extractValidJson\<close>; it never throws.\<close>

definition extractValidJson :: "string \<Rightarrow> jsval" where
  "extractValidJson str =
     (case JSON_parse str of
        Some v \<Rightarrow> v
      | None \<Rightarrow>
          (let trimmed = js_trim str;
               fromFirstBrace = dropWhile (\<lambda>c. c \<noteq> CHR ''{'') trimmed
           in if fromFirstBrace = [] then Null
              else (case scan_object [] 0 False False fromFirstBrace of
                      None \<Rightarrow> Null
                    | Some jsonStr \<Rightarrow>
                        (case JSON_parse jsonStr of None \<Rightarrow> Null | Some v \<Rightarrow> v))))"

text \<open>
  The scan in the words of the specification: walk the characters, toggling the quote
  state on an unescaped quote, skipping one character after a backslash, counting the
  brace depth outside quotes; the object is the shortest prefix at whose end the depth
  has returned to zero.
\<close>

fun track :: "int \<times> bool \<times> bool \<Rightarrow> char \<Rightarrow> int \<times> bool \<times> bool" where
  "track (depth, quoted, True) c = (depth, quoted, False)"
| "track (depth, quoted, False) c =
     (if c = CHR 0x5C then (depth, quoted, True)
      else if c = CHR 0x22 then (depth, \<not> quoted, False)
      else if quoted then (depth, quoted, False)
      else if c = CHR ''{'' then (depth + 1, quoted, False)
      else if c = CHR ''}'' then (depth - 1, quoted, False)
      else (depth, quoted, False))"

definition depth_after :: "string \<Rightarrow> int" where
  "depth_after p = fst (foldl track (0, False, False) p)"

definition first_balanced_object :: "string \<Rightarrow> string option" where
  "first_balanced_object s = find (\<lambda>p. p \<noteq> [] \<and> depth_after p = 0) (prefixes s)"


text \<open>The two replies of the specification's examples.\<close>

definition fenced_example :: string where
  "fenced_example = ''```json\<newline>{\"a\":1}\<newline>```''"

definition noisy_example :: string where
  "noisy_example = ''noise {\"a\":1} trailing''"


section \<open>Intent detection\<close>

text \<open>
  The module state of langchainService.js: \<open>modelConnectionWorking\<close> is \<open>null\<close> until the
  start-up test resolves, then \<open>true\<close>; \<open>false\<close> once an API error was seen.
\<close>

record service_state =
  modelConnectionWorking :: "bool option"
  conversationMemory :: memory_store

text \<open>
  One call of the model collaborator (\<open>intentChain.invoke\<close>, or the chat completion of the
  older service): it resolves to the raw text of the reply or rejects with an error. The
  prompt, and with it the conversation context, only feeds this call.
\<close>

datatype llm_outcome = Responds string | Throws js_error

text \<open>
  The property read \<open>v.k\<close> for a key that no prototype defines (here \<open>intent\<close>,
  \<open>confidence\<close>, \<open>entities\<close>): a \<open>TypeError\<close> on \<open>null\<close> and \<open>undefined\<close>, the own
  property of an object, \<open>undefined\<close> on every other value.
\<close>

fun member :: "jsval \<Rightarrow> string \<Rightarrow> js_error + jsval" where
  "member Null k = Inl (TypeError (''Cannot read properties of null (reading '' @ k @ '')''))"
| "member Undefined k =
     Inl (TypeError (''Cannot read properties of undefined (reading '' @ k @ '')''))"
| "member (Obj kvs) k = Inr (get_prop kvs k)"
| "member _ k = Inr Undefined"

text \<open>
  \<open>detectIntentFallback\<close> is called twice in \<open>detectIntent\<close>, and langchainService.js
  neither declares nor imports a binding of that name (nor does any other file of the
  repository define one): evaluating the call throws a \<open>ReferenceError\<close>.
\<close>

definition detectIntentFallback :: "string \<Rightarrow> js_error + jsval" where
  "detectIntentFallback message = Inl (ReferenceError ''detectIntentFallback is not defined'')"

text \<open>
  The \<open>try\<close> block of \<open>detectIntent\<close>, with the binding of the fallback classifier as a
  parameter. Nothing is written to the state before the last step.
\<close>

definition detectIntent_try ::
  "(string \<Rightarrow> js_error + jsval) \<Rightarrow> platform \<Rightarrow> llm_outcome \<Rightarrow> string \<Rightarrow> string \<Rightarrow> string \<Rightarrow> nat \<Rightarrow>
   service_state \<Rightarrow> js_error + jsval \<times> service_state" where
  "detectIntent_try fallback P llm message userId conversationId now st =
     (if modelConnectionWorking st = Some False then
        (case fallback message of Inl e \<Rightarrow> Inl e | Inr r \<Rightarrow> Inr (r, st))
      else
        (case llm of
           Throws e \<Rightarrow> Inl e
         | Responds response \<Rightarrow>
             (case parseGeminiResponse P response of
                Inl e \<Rightarrow> Inl e
              | Inr parsed \<Rightarrow>
                  (case member parsed ''intent'' of
                     Inl e \<Rightarrow> Inl e
                   | Inr intent \<Rightarrow>
                       if \<not> truthy intent
                          \<or> \<not> truthy (case member parsed ''confidence'' of Inr v \<Rightarrow> v | Inl _ \<Rightarrow> Undefined)
                          \<or> \<not> truthy (case member parsed ''entities'' of Inr v \<Rightarrow> v | Inl _ \<Rightarrow> Undefined)
                       then Inl (Error ''Invalid response structure from Gemini'')
                       else Inr (parsed,
                              st\<lparr>conversationMemory :=
                                   addToConversationMemory userId conversationId
                                     (Intent_detection message intent now)
                                     (conversationMemory st)\<rparr>)))))"

text \<open>
  \<open>detectIntent\<close>: the \<open>try\<close> block, and the \<open>catch\<close> block that marks the model
  unavailable on an API error and calls the fallback classifier. An error thrown in the
  \<open>catch\<close> block rejects the promise; the state keeps what was written before.
\<close>

definition detectIntent_with ::
  "(string \<Rightarrow> js_error + jsval) \<Rightarrow> platform \<Rightarrow> llm_outcome \<Rightarrow> string \<Rightarrow> string \<Rightarrow> string \<Rightarrow> nat \<Rightarrow>
   service_state \<Rightarrow> (js_error + jsval) \<times> service_state" where
  "detectIntent_with fallback P llm message userId conversationId now st =
     (case detectIntent_try fallback P llm message userId conversationId now st of
        Inr (parsed, st') \<Rightarrow> (Inr parsed, st')
      | Inl error \<Rightarrow>
          (let st' =
                 (if js_includes (error_message error) ''GoogleGenerativeAI Error''
                     \<or> js_includes (error_message error) ''404 Not Found''
                  then st\<lparr>modelConnectionWorking := Some False\<rparr> else st)
           in (fallback message, st')))"

definition detectIntent ::
  "platform \<Rightarrow> llm_outcome \<Rightarrow> string \<Rightarrow> string \<Rightarrow> string \<Rightarrow> nat \<Rightarrow> service_state \<Rightarrow>
   (js_error + jsval) \<times> service_state" where
  "detectIntent = detectIntent_with detectIntentFallback"

text \<open>
  \<open>detectIntent\<close> of the older service (the file that requires \<open>openai\<close>): one chat
  completion, \<open>JSON.parse\<close> of its content, and a constant result in the \<open>catch\<close> block.
\<close>

definition general_inquiry :: jsval where
  "general_inquiry =
     Obj [(''intent'', Str ''GENERAL_INQUIRY''),
          (''confidence'', Num (Fin (1 / 2))),
          (''entities'', Obj [])]"

definition openai_detectIntent :: "llm_outcome \<Rightarrow> string \<Rightarrow> jsval" where
  "openai_detectIntent llm message =
     (case llm of
        Throws e \<Rightarrow> general_inquiry
      | Responds response \<Rightarrow>
          (case JSON_parse response of Some v \<Rightarrow> v | None \<Rightarrow> general_inquiry))"


section \<open>Strings from values\<close>

text \<open>
  The decimal digits of a number that is not negative, \<open>String(n)\<close> for a counter, and
  \<open>padStart(k, '0')\<close>.
\<close>

function show_digits :: "int \<Rightarrow> string" where
  "show_digits n =
     (if n < 10 then [char_of (48 + n)] else show_digits (n div 10) @ [char_of (48 + n mod 10)])"
  by pat_completeness auto
termination
  by (relation "measure nat") auto

declare show_digits.simps [simp del]

definition show_nat :: "nat \<Rightarrow> string" where
  "show_nat n = show_digits (int n)"

definition padStart :: "nat \<Rightarrow> char \<Rightarrow> string \<Rightarrow> string" where
  "padStart k c s = replicate (k - length s) c @ s"

text \<open>
  \<open>Number::toString\<close> for a number in decimal: with the digits \<open>s\<close> of the number, their
  count \<open>k\<close> and the position \<open>n\<close> of the decimal point (the value is \<open>0.s\<close> times ten to the
  \<open>n\<close>), plain digits when \<open>k \<le> n \<le> 21\<close>, a decimal point inside when \<open>0 < n \<le> 21\<close>,
  leading zeros when \<open>-6 < n \<le> 0\<close>, and the exponent notation otherwise. The digits are
  those of the rational itself, which is a finite decimal for every double; the search
  for the number of decimal places is bounded by four times the number of digits of the
  denominator, which is enough for a denominator that divides a power of ten.
\<close>

fun decimal_scale :: "nat \<Rightarrow> rat \<Rightarrow> nat" where
  "decimal_scale 0 r = 0"
| "decimal_scale (Suc fuel) r =
     (if r = of_int \<lfloor>r\<rfloor> then 0 else Suc (decimal_scale fuel (r * 10)))"

definition show_exponent :: "int \<Rightarrow> string" where
  "show_exponent e = ''e'' @ (if e < 0 then ''-'' else ''+'') @ show_digits \<bar>e\<bar>"

definition show_positive :: "rat \<Rightarrow> string" where
  "show_positive r =
     (let e = decimal_scale (4 * length (show_digits (snd (quotient_of r)))) r;
          all_digits = show_digits \<lfloor>r * 10 ^ e\<rfloor>;
          s = rev (dropWhile (\<lambda>c. c = CHR ''0'') (rev all_digits));
          k = int (length s);
          n = int (length all_digits) - int e
      in if k \<le> n \<and> n \<le> 21 then s @ replicate (nat (n - k)) (CHR ''0'')
         else if 0 < n \<and> n \<le> 21 then take (nat n) s @ ''.'' @ drop (nat n) s
         else if - 6 < n \<and> n \<le> 0 then ''0.'' @ replicate (nat (- n)) (CHR ''0'') @ s
         else if k = 1 then s @ show_exponent (n - 1)
         else take 1 s @ ''.'' @ drop 1 s @ show_exponent (n - 1))"

fun number_to_string :: "jsnum \<Rightarrow> string" where
  "number_to_string NaN = ''NaN''"
| "number_to_string PosInf = ''Infinity''"
| "number_to_string NegInf = ''-Infinity''"
| "number_to_string (Fin r) =
     (if r = 0 then ''0'' else if r < 0 then ''-'' @ show_positive (- r) else show_positive r)"

text \<open>
  \<open>ToString\<close>. An array prints its elements joined by commas, \<open>null\<close> and \<open>undefined\<close>
  among them as the empty string; an object of \<open>JSON.parse\<close> prints as
  \<open>[object Object]\<close>.
\<close>

fun join :: "string \<Rightarrow> string list \<Rightarrow> string" where
  "join sep [] = []"
| "join sep [x] = x"
| "join sep (x # y # ys) = x @ sep @ join sep (y # ys)"

fun ToString :: "jsval \<Rightarrow> string" where
  "ToString Undefined = ''undefined''"
| "ToString Null = ''null''"
| "ToString (Bool b) = (if b then ''true'' else ''false'')"
| "ToString (Num n) = number_to_string n"
| "ToString (Str s) = s"
| "ToString (Arr vs) =
     join '','' (map (\<lambda>v. if v = Null \<or> v = Undefined then [] else ToString v) vs)"
| "ToString (Obj kvs) = ''[object Object]''"

text \<open>\<open>/^\d{4}-\d{2}-\d{2}$/\<close>\<close>

definition iso_date_shape :: "string \<Rightarrow> bool" where
  "iso_date_shape s =
     (length s = 10 \<and> list_all is_digit (take 4 s) \<and> s ! 4 = CHR ''-'' \<and>
      list_all is_digit (take 2 (drop 5 s)) \<and> s ! 7 = CHR ''-'' \<and>
      list_all is_digit (drop 8 s))"

section \<open>Numbers from values\<close>

text \<open>
  The longest prefix of a string that is a signed decimal literal (\<open>StrDecimalLiteral\<close>:
  \<open>Infinity\<close>, or digits with an optional fraction and an optional exponent), with the
  rest of the string; \<open>None\<close> when no prefix is one. An exponent mark that no digit
  follows is not part of the literal.
\<close>

definition exponent_prefix :: "string \<Rightarrow> int \<times> string" where
  "exponent_prefix r =
     (if r \<noteq> [] \<and> (hd r = CHR ''e'' \<or> hd r = CHR ''E'') then
        (let r1 = tl r;
             neg = (r1 \<noteq> [] \<and> hd r1 = CHR ''-'');
             r2 = (if r1 \<noteq> [] \<and> (hd r1 = CHR ''-'' \<or> hd r1 = CHR ''+'') then tl r1 else r1);
             ds = takeWhile is_digit r2
         in if ds = [] then (0, r)
            else (if neg then - digits_val ds else digits_val ds,
                  dropWhile is_digit r2))
      else (0, r))"

definition decimal_prefix :: "string \<Rightarrow> (jsnum \<times> string) option" where
  "decimal_prefix t =
     (let neg = (t \<noteq> [] \<and> hd t = CHR ''-'');
          u = (if t \<noteq> [] \<and> (hd t = CHR ''-'' \<or> hd t = CHR ''+'') then tl t else t)
      in if startsWith u ''Infinity'' then Some (if neg then NegInf else PosInf, drop 8 u)
         else
           (let ip = takeWhile is_digit u;
                r1 = dropWhile is_digit u;
                has_dot = (r1 \<noteq> [] \<and> hd r1 = CHR ''.'');
                fp = (if has_dot then takeWhile is_digit (tl r1) else []);
                r2 = (if has_dot then dropWhile is_digit (tl r1) else r1)
            in if ip = [] \<and> fp = [] then None
               else
                 (let er = exponent_prefix r2;
                      m = scale10 (of_int (digits_val (ip @ fp))) (fst er - int (length fp))
                  in Some (Fin (if neg then - m else m), snd er))))"

text \<open>\<open>parseFloat\<close> on a string: leading white space goes, then the longest literal.\<close>

definition parseFloat_string :: "string \<Rightarrow> jsnum" where
  "parseFloat_string s =
     (case decimal_prefix (dropWhile js_space s) of None \<Rightarrow> NaN | Some (n, _) \<Rightarrow> n)"

text \<open>\<open>parseFloat(v)\<close> reads \<open>ToString(v)\<close>.\<close>

definition parseFloat :: "jsval \<Rightarrow> jsnum" where
  "parseFloat v = parseFloat_string (ToString v)"

text \<open>
  \<open>StringToNumber\<close>: the trimmed string is empty (zero), a hexadecimal, octal or binary
  integer, or a decimal literal as a whole; \<open>NaN\<close> otherwise.
\<close>

definition radix_digits_val :: "int \<Rightarrow> string \<Rightarrow> int" where
  "radix_digits_val b ds = foldl (\<lambda>n c. b * n + hex_val c) 0 ds"

definition nondecimal_literal :: "string \<Rightarrow> jsnum option" where
  "nondecimal_literal t =
     (if length t > 2 \<and> hd t = CHR ''0'' then
        (let k = t ! 1; ds = drop 2 t
         in if (k = CHR ''x'' \<or> k = CHR ''X'') \<and> list_all is_hex ds
              then Some (Fin (of_int (radix_digits_val 16 ds)))
            else if (k = CHR ''o'' \<or> k = CHR ''O'') \<and> list_all (\<lambda>c. c \<in> set ''01234567'') ds
              then Some (Fin (of_int (radix_digits_val 8 ds)))
            else if (k = CHR ''b'' \<or> k = CHR ''B'') \<and> list_all (\<lambda>c. c \<in> set ''01'') ds
              then Some (Fin (of_int (radix_digits_val 2 ds)))
            else None)
      else None)"

definition StringToNumber :: "string \<Rightarrow> jsnum" where
  "StringToNumber s =
     (let t = js_trim s
      in if t = [] then Fin 0
         else (case nondecimal_literal t of
                 Some n \<Rightarrow> n
               | None \<Rightarrow>
                   (case decimal_prefix t of
                      Some (n, []) \<Rightarrow> n
                    | _ \<Rightarrow> NaN)))"

text \<open>
  \<open>ToNumber\<close>. An array or an object is converted through its string (\<open>valueOf\<close> gives
  the object back, \<open>toString\<close> its text).
\<close>

fun ToNumber :: "jsval \<Rightarrow> jsnum" where
  "ToNumber Undefined = NaN"
| "ToNumber Null = Fin 0"
| "ToNumber (Bool b) = Fin (if b then 1 else 0)"
| "ToNumber (Num n) = n"
| "ToNumber (Str s) = StringToNumber s"
| "ToNumber v = StringToNumber (ToString v)"

text \<open>\<open>x > 0\<close>, \<open>x > 1\<close> and \<open>x < 0\<close> on numbers: false when \<open>x\<close> is \<open>NaN\<close>.\<close>

fun num_greater :: "jsnum \<Rightarrow> rat \<Rightarrow> bool" where
  "num_greater (Fin r) k = (r > k)"
| "num_greater PosInf k = True"
| "num_greater _ k = False"

fun num_less :: "jsnum \<Rightarrow> rat \<Rightarrow> bool" where
  "num_less (Fin r) k = (r < k)"
| "num_less NegInf k = True"
| "num_less _ k = False"


text \<open>\<open>a || b\<close> on values.\<close>

definition js_or :: "jsval \<Rightarrow> jsval \<Rightarrow> jsval" where
  "js_or a b = (if truthy a then a else b)"



section \<open>Dates\<close>

text \<open>
  The proleptic Gregorian calendar of ECMAScript: the day number of a date, counted from
  1 January 1970, and the date of a day number.
\<close>

definition days_from_civil :: "int \<Rightarrow> int \<Rightarrow> int \<Rightarrow> int" where
  "days_from_civil y m d =
     (let y' = (if m \<le> 2 then y - 1 else y);
          era = y' div 400;
          yoe = y' mod 400;
          doy = (153 * (if m > 2 then m - 3 else m + 9) + 2) div 5 + d - 1;
          doe = yoe * 365 + yoe div 4 - yoe div 100 + doy
      in era * 146097 + doe - 719468)"

definition civil_from_days :: "int \<Rightarrow> int \<times> int \<times> int" where
  "civil_from_days z =
     (let z' = z + 719468;
          era = z' div 146097;
          doe = z' mod 146097;
          yoe = (doe - doe div 1460 + doe div 36524 - doe div 146096) div 365;
          doy = doe - (365 * yoe + yoe div 4 - yoe div 100);
          mp = (5 * doy + 2) div 153;
          d = doy - (153 * mp + 2) div 5 + 1;
          m = (if mp < 10 then mp + 3 else mp - 9);
          y = yoe + era * 400
      in (if m \<le> 2 then y + 1 else y, m, d))"

definition is_leap :: "int \<Rightarrow> bool" where
  "is_leap y = (y mod 4 = 0 \<and> (y mod 100 \<noteq> 0 \<or> y mod 400 = 0))"

definition days_in_month :: "int \<Rightarrow> int \<Rightarrow> int" where
  "days_in_month y m =
     (if m = 2 then (if is_leap y then 29 else 28)
      else if m = 4 \<or> m = 6 \<or> m = 9 \<or> m = 11 then 30 else 31)"

text \<open>
  The date part of \<open>toISOString()\<close> for a time value in milliseconds: four digits for the
  years 0 to 9999, a sign and six digits otherwise.
\<close>

definition iso_year :: "int \<Rightarrow> string" where
  "iso_year y =
     (if 0 \<le> y \<and> y \<le> 9999 then padStart 4 (CHR ''0'') (show_digits y)
      else (if y < 0 then ''-'' else ''+'') @ padStart 6 (CHR ''0'') (show_digits \<bar>y\<bar>))"

definition iso_date_of_day :: "int \<Rightarrow> string" where
  "iso_date_of_day z =
     (case civil_from_days z of
        (y, m, d) \<Rightarrow>
          iso_year y @ ''-'' @ padStart 2 (CHR ''0'') (show_digits m) @ ''-'' @
          padStart 2 (CHR ''0'') (show_digits d))"

definition ms_per_day :: int where
  "ms_per_day = 86400000"


text \<open>
  \<open>new Date(s)\<close> for a string. A string of the shape \<open>YYYY-MM-DD\<close> is in the ISO format and
  read as midnight UTC of that date; a month outside 1 to 12 or a day outside 1 to 31 is an
  illegal element value and gives an invalid date. A day of 29 to 31 that the month does
  not have, and every string of another shape, are read as the implementation likes.
\<close>

definition Date_parse :: "platform \<Rightarrow> string \<Rightarrow> int option" where
  "Date_parse P s =
     (if iso_date_shape s then
        (let y = digits_val (take 4 s);
             m = digits_val (take 2 (drop 5 s));
             d = digits_val (drop 8 s)
         in if 1 \<le> m \<and> m \<le> 12 \<and> 1 \<le> d \<and> d \<le> days_in_month y m
              then Some (days_from_civil y m d * ms_per_day)
            else if 1 \<le> m \<and> m \<le> 12 \<and> 1 \<le> d \<and> d \<le> 31 then legacy_date_parse P s
            else None)
      else legacy_date_parse P s)"

text \<open>
  A platform for the examples: the time zone is UTC, so that \<open>setDate\<close> moves the UTC date;
  no string outside the ISO format is read as a date; the clock stands at half past ten on
  15 January 2025.
\<close>

definition utc_platform :: platform where
  "utc_platform =
     \<lparr>syntax_error_message = (\<lambda>s. ''Unexpected token''),
      legacy_date_parse = (\<lambda>s. None),
      date_plus_days = (\<lambda>s n.
        if iso_date_shape s \<and>
           1 \<le> digits_val (take 2 (drop 5 s)) \<and> digits_val (take 2 (drop 5 s)) \<le> 12 \<and>
           1 \<le> digits_val (drop 8 s) \<and>
           digits_val (drop 8 s) \<le>
             days_in_month (digits_val (take 4 s)) (digits_val (take 2 (drop 5 s)))
        then Some (iso_date_of_day
               (days_from_civil (digits_val (take 4 s))
                  (digits_val (take 2 (drop 5 s))) (digits_val (drop 8 s)) + int n))
        else None),
      now_iso = ''2025-01-15T10:30:00.000Z''\<rparr>"


section \<open>The OpenBook service\<close>

text \<open>The module state: the two in-memory lists and their counters.\<close>

record book =
  invoices :: "jsval list"
  transactions :: "jsval list"
  invoiceCounter :: nat
  transactionCounter :: nat

text \<open>The checks of the zod schemas on one field.\<close>

fun z_string :: "jsval \<Rightarrow> bool" where
  "z_string (Str s) = True"
| "z_string _ = False"

fun z_string_min1 :: "jsval \<Rightarrow> bool" where
  "z_string_min1 (Str s) = (length s \<ge> 1)"
| "z_string_min1 _ = False"


fun z_number_positive :: "jsval \<Rightarrow> bool" where
  "z_number_positive (Num n) = num_greater n 0"
| "z_number_positive _ = False"

fun z_date :: "jsval \<Rightarrow> bool" where
  "z_date (Str s) = iso_date_shape s"
| "z_date _ = False"


text \<open>
  \<open>invoiceSchema.parse\<close> and \<open>transactionSchema.parse\<close>: the validated object holds the
  fields of the schema, in its order; \<open>None\<close> is the \<open>ZodError\<close>.
\<close>

definition invoiceSchema_parse :: "(string \<times> jsval) list \<Rightarrow> (string \<times> jsval) list option" where
  "invoiceSchema_parse d =
     (if z_string_min1 (get_prop d ''client'') \<and> z_number_positive (get_prop d ''amount'') \<and>
         z_string_min1 (get_prop d ''description'') \<and> z_date (get_prop d ''date'') \<and>
         z_string (get_prop d ''userId'')
      then Some [(''client'', get_prop d ''client''), (''amount'', get_prop d ''amount''),
                 (''description'', get_prop d ''description''), (''date'', get_prop d ''date''),
                 (''userId'', get_prop d ''userId'')]
      else None)"


fun the_string :: "jsval \<Rightarrow> string" where
  "the_string (Str s) = s"
| "the_string _ = []"

text \<open>
  \<open>calculateDueDate(issueDate)\<close> with the default term of 30 days builds a \<open>Date\<close>, moves
  it and prints it: the platform's part. \<open>None\<close> is the \<open>RangeError\<close> of \<open>toISOString\<close> on
  an invalid date.
\<close>

definition calculateDueDate :: "platform \<Rightarrow> string \<Rightarrow> string option" where
  "calculateDueDate P issueDate = date_plus_days P issueDate 30"

definition createInvoice ::
  "platform \<Rightarrow> (string \<times> jsval) list \<Rightarrow> book \<Rightarrow> (js_error + jsval) \<times> book" where
  "createInvoice P invoiceData st =
     (case invoiceSchema_parse invoiceData of
        None \<Rightarrow> (Inl (Error ''Invalid invoice data''), st)
      | Some validatedData \<Rightarrow>
          (case calculateDueDate P (the_string (get_prop validatedData ''date'')) of
             None \<Rightarrow> (Inl (Error ''Failed to create invoice''), st)
           | Some due \<Rightarrow>
               (let invoice = Obj
                      [(''id'', Num (Fin (of_nat (invoiceCounter st)))),
                       (''invoice_number'',
                          Str (''INV-'' @ padStart 4 (CHR ''0'') (show_nat (invoiceCounter st)))),
                       (''customer_name'', get_prop validatedData ''client''),
                       (''amount'', get_prop validatedData ''amount''),
                       (''description'', get_prop validatedData ''description''),
                       (''issue_date'', get_prop validatedData ''date''),
                       (''due_date'', Str due),
                       (''status'', Str ''pending''),
                       (''currency'', Str ''USD''),
                       (''created_at'', Str (now_iso P)),
                       (''user_id'', get_prop validatedData ''userId'')]
                in (Inr invoice,
                    st\<lparr>invoiceCounter := invoiceCounter st + 1,
                       invoices := invoices st @ [invoice]\<rparr>))))"







section \<open>The handlers of the dispatcher\<close>

text \<open>
  A handler returns \<open>{message, data}\<close>. A message is a template literal: its texts and
  the values substituted between them, which JavaScript prints with \<open>ToString\<close>.
\<close>

datatype piece = Lit string | Val jsval

record reply =
  reply_message :: "piece list"
  reply_data :: jsval

text \<open>\<open>new Date().toISOString().split('T')[0]\<close>\<close>

definition today :: "platform \<Rightarrow> string" where
  "today P = takeWhile (\<lambda>c. c \<noteq> CHR ''T'') (now_iso P)"

definition invoice_clarification :: "piece list" where
  "invoice_clarification =
     [Lit (''I need more information to create an invoice. Please provide the client name '' @
           ''and amount. For example: 'Create an invoice for John Doe for $500'' @ [CHR 0x27])]"

definition invoice_apology :: "piece list" where
  "invoice_apology =
     [Lit (''Sorry, I couldn't create the invoice. Please try again with the client name '' @
           ''and amount.'')]"

text \<open>The argument that \<open>handleInvoiceCreation\<close> builds for \<open>createInvoice\<close>.\<close>

definition invoice_input :: "platform \<Rightarrow> (string \<times> jsval) list \<Rightarrow> jsval \<Rightarrow> (string \<times> jsval) list" where
  "invoice_input P d userId =
     [(''client'', get_prop d ''client''),
      (''amount'', Num (parseFloat (get_prop d ''amount''))),
      (''description'', js_or (get_prop d ''description'') (Str ''Service provided'')),
      (''date'', js_or (get_prop d ''date'') (Str (today P))),
      (''userId'', userId)]"

definition handleInvoiceCreation ::
  "platform \<Rightarrow> (string \<times> jsval) list \<Rightarrow> jsval \<Rightarrow> book \<Rightarrow> reply \<times> book" where
  "handleInvoiceCreation P d userId st =
     (if \<not> truthy (get_prop d ''client'') \<or> \<not> truthy (get_prop d ''amount'') then
        (\<lparr>reply_message = invoice_clarification, reply_data = Null\<rparr>, st)
      else
        (case createInvoice P (invoice_input P d userId) st of
           (Inl error, st') \<Rightarrow> (\<lparr>reply_message = invoice_apology, reply_data = Null\<rparr>, st')
         | (Inr invoice, st') \<Rightarrow>
             (\<lparr>reply_message =
                  [Lit ''Invoice created successfully! Invoice #'',
                   Val (case member invoice ''id'' of Inr v \<Rightarrow> v | Inl _ \<Rightarrow> Undefined),
                   Lit '' for '', Val (get_prop d ''client''),
                   Lit '' - $'', Val (get_prop d ''amount'')],
                reply_data = invoice\<rparr>, st')))"







text \<open>The state of the OpenBook module when it is loaded.\<close>

definition initial_book :: book where
  "initial_book = \<lparr>invoices = [], transactions = [], invoiceCounter = 1, transactionCounter = 1\<rparr>"

text \<open>The entities of the specification's two dispatcher examples.\<close>

definition jane_500 :: "(string \<times> jsval) list" where
  "jane_500 = [(''client'', Str ''Jane''), (''amount'', Str ''500'')]"



section \<open>Cleaning extracted invoice data (langchainService.js)\<close>

text \<open>
  \<open>new Date(v)\<close> reads a string, or the string of an array or an object, as a date, and
  takes any other value as the time value \<open>ToNumber(v)\<close>, which is valid when it is finite
  and at most 8.64e15 in magnitude. \<open>isValidDate\<close> tests \<open>!isNaN(date.getTime())\<close>.
\<close>

fun valid_time :: "jsnum \<Rightarrow> bool" where
  "valid_time (Fin r) = (\<bar>r\<bar> \<le> 8640000000000000)"
| "valid_time _ = False"

fun isValidDate :: "platform \<Rightarrow> jsval \<Rightarrow> bool" where
  "isValidDate P (Str s) = (Date_parse P s \<noteq> None)"
| "isValidDate P (Arr vs) = (Date_parse P (ToString (Arr vs)) \<noteq> None)"
| "isValidDate P (Obj kvs) = (Date_parse P (ToString (Obj kvs)) \<noteq> None)"
| "isValidDate P v = valid_time (ToNumber v)"

fun isArray :: "jsval \<Rightarrow> bool" where
  "isArray (Arr vs) = True"
| "isArray _ = False"

text \<open>The body of the first \<open>forEach\<close>, on one field.\<close>

definition clean_amount :: "(string \<times> jsval) list \<Rightarrow> string \<Rightarrow> (string \<times> jsval) list" where
  "clean_amount cleaned field =
     (if get_prop cleaned field \<noteq> Null \<and> get_prop cleaned field \<noteq> Undefined then
        (let amount = parseFloat (get_prop cleaned field)
         in set_prop cleaned field (if amount = NaN then Null else Num amount))
      else cleaned)"

text \<open>The body of the second \<open>forEach\<close>, on one field.\<close>

definition clean_date :: "platform \<Rightarrow> (string \<times> jsval) list \<Rightarrow> string \<Rightarrow> (string \<times> jsval) list" where
  "clean_date P cleaned field =
     (if truthy (get_prop cleaned field) \<and> \<not> isValidDate P (get_prop cleaned field)
      then set_prop cleaned field Null else cleaned)"

definition clamp_confidence :: "(string \<times> jsval) list \<Rightarrow> (string \<times> jsval) list" where
  "clamp_confidence cleaned =
     (let cleaned =
            (if num_greater (ToNumber (get_prop cleaned ''confidence'')) 1
             then set_prop cleaned ''confidence'' (Num (Fin 1)) else cleaned)
      in if num_less (ToNumber (get_prop cleaned ''confidence'')) 0
         then set_prop cleaned ''confidence'' (Num (Fin 0)) else cleaned)"

definition default_currency :: "(string \<times> jsval) list \<Rightarrow> (string \<times> jsval) list" where
  "default_currency cleaned =
     (if \<not> truthy (get_prop cleaned ''currency'')
      then set_prop cleaned ''currency'' (Str ''USD'') else cleaned)"

definition ensure_extractedFields :: "(string \<times> jsval) list \<Rightarrow> (string \<times> jsval) list" where
  "ensure_extractedFields cleaned =
     (if \<not> isArray (get_prop cleaned ''extractedFields'')
      then set_prop cleaned ''extractedFields'' (Arr []) else cleaned)"

text \<open>\<open>{ ...data }\<close> is a copy of the object; the five steps follow in the source's order.\<close>

definition validateAndCleanExtractedData ::
  "platform \<Rightarrow> (string \<times> jsval) list \<Rightarrow> (string \<times> jsval) list" where
  "validateAndCleanExtractedData P data =
     (let cleaned = data;
          cleaned = foldl clean_amount cleaned [''totalAmount'', ''subtotal'', ''taxAmount''];
          cleaned = foldl (clean_date P) cleaned [''invoiceDate'', ''dueDate''];
          cleaned = clamp_confidence cleaned;
          cleaned = default_currency cleaned;
          cleaned = ensure_extractedFields cleaned
      in cleaned)"

text \<open>What the first two steps leave in a field, by what the field held.\<close>

definition cleaned_amount :: "jsval \<Rightarrow> jsval" where
  "cleaned_amount v =
     (if v = Null \<or> v = Undefined then v
      else if parseFloat v = NaN then Null else Num (parseFloat v))"

definition cleaned_date :: "platform \<Rightarrow> jsval \<Rightarrow> jsval" where
  "cleaned_date P v = (if truthy v \<and> \<not> isValidDate P v then Null else v)"


section \<open>Regular expressions\<close>

text \<open>
  The regular expressions of the source, as syntax trees, and the backtracking matcher of
  ECMAScript that runs them: alternatives are tried left to right, quantifiers are greedy,
  and the first way to match the whole pattern wins. A character class is the list of its
  members; \<open>Dot\<close> is every character but a line terminator.
\<close>

datatype atom = Chars string | Dot

datatype regex =
    Atom atom
  | Empty
  | Seq regex regex
  | Alt regex regex
  | Rep nat "nat option" regex
  | Group nat regex
  | Bol
  | Eol
  | WordBoundary

text \<open>
  \<open>Canonicalize\<close> under the flag \<open>i\<close>: the upper case of the character, when that is one
  code unit below 256.
\<close>

definition js_upper_char :: "char \<Rightarrow> char" where
  "js_upper_char c =
     (let n = (of_char c :: nat)
      in if (97 \<le> n \<and> n \<le> 122) \<or> (224 \<le> n \<and> n \<le> 254 \<and> n \<noteq> 247)
         then char_of (n - 32) else c)"

fun atom_match :: "bool \<Rightarrow> atom \<Rightarrow> char \<Rightarrow> bool" where
  "atom_match ic Dot c = (c \<noteq> CHR 0x0A \<and> c \<noteq> CHR 0x0D)"
| "atom_match ic (Chars ms) c =
     (if ic then list_ex (\<lambda>m. js_upper_char m = js_upper_char c) ms else c \<in> set ms)"

definition is_word_char :: "char \<Rightarrow> bool" where
  "is_word_char c = (is_lower c \<or> is_upper c \<or> is_digit c \<or> c = CHR ''_'')"

text \<open>
  A matcher state: the character before the position (none at the start of the input),
  the input from the position on, and the captures, the latest first.
\<close>

type_synonym mstate = "char option \<times> string \<times> (nat \<times> string) list"

definition word_before :: "char option \<Rightarrow> bool" where
  "word_before p = (case p of None \<Rightarrow> False | Some c \<Rightarrow> is_word_char c)"

definition word_after :: "string \<Rightarrow> bool" where
  "word_after s = (case s of [] \<Rightarrow> False | c # _ \<Rightarrow> is_word_char c)"

text \<open>
  \<open>rmatch ic r k st\<close> matches \<open>r\<close> at \<open>st\<close> and hands each end state to the continuation
  \<open>k\<close>, in the order of preference, until \<open>k\<close> succeeds. \<open>repeat\<close> runs a quantifier with
  \<open>mn\<close> iterations still due and at most \<open>mx\<close> more allowed; an iteration that is not due
  and consumes nothing is refused. An unbounded quantifier gets as many iterations as are
  due plus one for every character left.
\<close>

function (sequential)
  rmatch :: "bool \<Rightarrow> regex \<Rightarrow> (mstate \<Rightarrow> mstate option) \<Rightarrow> mstate \<Rightarrow> mstate option" and
  repeat :: "bool \<Rightarrow> regex \<Rightarrow> nat \<Rightarrow> nat \<Rightarrow> (mstate \<Rightarrow> mstate option) \<Rightarrow> mstate \<Rightarrow> mstate option"
where
  "rmatch ic (Atom a) k (p, [], caps) = None"
| "rmatch ic (Atom a) k (p, c # cs, caps) =
     (if atom_match ic a c then k (Some c, cs, caps) else None)"
| "rmatch ic Empty k st = k st"
| "rmatch ic (Seq r1 r2) k st = rmatch ic r1 (\<lambda>st'. rmatch ic r2 k st') st"
| "rmatch ic (Alt r1 r2) k st =
     (case rmatch ic r1 k st of Some res \<Rightarrow> Some res | None \<Rightarrow> rmatch ic r2 k st)"
| "rmatch ic (Rep mn mx r) k (p, s, caps) =
     repeat ic r mn (case mx of None \<Rightarrow> mn + length s | Some m \<Rightarrow> m) k (p, s, caps)"
| "rmatch ic (Group n r) k (p, s, caps) =
     rmatch ic r
       (\<lambda>st'. k (fst st', fst (snd st'),
                 (n, take (length s - length (fst (snd st'))) s) # snd (snd st')))
       (p, s, caps)"
| "rmatch ic Bol k (p, s, caps) = (if p = None then k (p, s, caps) else None)"
| "rmatch ic Eol k (p, s, caps) = (if s = [] then k (p, s, caps) else None)"
| "rmatch ic WordBoundary k (p, s, caps) =
     (if word_before p \<noteq> word_after s then k (p, s, caps) else None)"
| "repeat ic r mn 0 k st = (if mn = 0 then k st else None)"
| "repeat ic r mn (Suc mx) k st =
     (case rmatch ic r
             (\<lambda>st'. if mn = 0 \<and> fst (snd st') = fst (snd st) then None
                    else repeat ic r (mn - 1) mx k st')
             st of
        Some res \<Rightarrow> Some res
      | None \<Rightarrow> if mn = 0 then k st else None)"
  by pat_completeness auto
termination
  by (relation "inv_image (less_than <*lex*> less_than)
        (\<lambda>x. case x of
           Inl (ic, r, k, st) \<Rightarrow> (size r, 0)
         | Inr (ic, r, mn, mx, k, st) \<Rightarrow> (size r, Suc mx))")
     auto















definition digit :: regex where
  "digit = Atom (Chars ''0123456789'')"









section \<open>The extraction service\<close>

text \<open>The patterns of \<open>patterns\<close>, in the order of the source. All are global.\<close>




















chapter \<open>Properties\<close>

section \<open>Property reads\<close>

lemma get_prop_Nil [simp]: "get_prop [] k = Undefined"
  by (simp add: get_prop_def)

lemma get_prop_Cons [simp]: "get_prop ((k', v) # kvs) k = (if k' = k then v else get_prop kvs k)"
  by (simp add: get_prop_def)

lemma get_prop_set_prop [simp]:
  "get_prop (set_prop kvs k v) k' = (if k = k' then v else get_prop kvs k')"
  by (induction kvs) auto


section \<open>Properties of the conversation memory\<close>

lemma get_or_empty_add:
  "get_or_empty (addToConversationMemory u c x cm) (memory_key u c) =
     (let m = get_or_empty cm (memory_key u c) @ [x]
      in if length m > 20 then drop (length m - 20) m else m)"
  by (simp add: addToConversationMemory_def get_or_empty_def Let_def)

lemma length_after_add:
  "length (get_or_empty (addToConversationMemory u c x cm) (memory_key u c)) \<le> 20"
  by (simp add: get_or_empty_add Let_def)

lemma drop_tail_twice:
  fixes ys xs :: "'a list"
  shows "drop (length (drop (length ys - 20) ys @ xs) - 20) (drop (length ys - 20) ys @ xs) =
         drop (length (ys @ xs) - 20) (ys @ xs)"
proof (cases "length ys \<le> 20")
  case True
  then show ?thesis by simp
next
  case False
  define k where "k = length ys - 20"
  have k: "k \<le> length ys" "length ys - k = 20"
    using False by (simp_all add: k_def)
  have idx: "length (ys @ xs) - 20 = length xs + k"
    using False by (simp add: k_def)
  have "drop (length (ys @ xs) - 20) (ys @ xs) = drop (length xs + k) (ys @ xs)"
    by (simp only: idx)
  also have "\<dots> = drop (length xs) (drop k (ys @ xs))"
    by (simp only: drop_drop)
  also have "\<dots> = drop (length xs) (drop k ys @ xs)"
    using k by simp
  finally show ?thesis
    using k by (simp add: k_def)
qed

lemma append_all_last20:
  "length (get_or_empty cm (memory_key u c)) \<le> 20 \<Longrightarrow>
   get_or_empty (append_all u c xs cm) (memory_key u c) =
     (let m = get_or_empty cm (memory_key u c) @ xs in drop (length m - 20) m)"
proof (induction xs arbitrary: cm)
  case Nil
  then show ?case by simp
next
  case (Cons x xs)
  let ?cm = "addToConversationMemory u c x cm"
  let ?old = "get_or_empty cm (memory_key u c)"
  have short: "length (get_or_empty ?cm (memory_key u c)) \<le> 20"
    by (rule length_after_add)
  have step: "get_or_empty ?cm (memory_key u c) = drop (length (?old @ [x]) - 20) (?old @ [x])"
    by (simp add: get_or_empty_add Let_def)
  have "get_or_empty (append_all u c (x # xs) cm) (memory_key u c) =
        (let m = get_or_empty ?cm (memory_key u c) @ xs in drop (length m - 20) m)"
    using Cons.IH [OF short] by simp
  also have "\<dots> = drop (length ((?old @ [x]) @ xs) - 20) ((?old @ [x]) @ xs)"
    unfolding step Let_def by (rule drop_tail_twice)
  also have "\<dots> = (let m = ?old @ x # xs in drop (length m - 20) m)"
    by (simp add: Let_def)
  finally show ?case .
qed

text \<open>
  C7. After any append the history of the key has at most 20 entries, whatever the store
  held before; and appending 25 entries to a key with no history leaves exactly the last
  20 of them, in the order in which they were appended (the first 5 are gone).
\<close>

theorem memory_capped_at_20:
  "length (get_or_empty (addToConversationMemory u c x cm) (memory_key u c)) \<le> 20 \<and>
   (length xs = 25 \<and> get_or_empty cm (memory_key u c) = [] \<longrightarrow>
      get_or_empty (append_all u c xs cm) (memory_key u c) = drop 5 xs \<and>
      length (get_or_empty (append_all u c xs cm) (memory_key u c)) = 20)"
proof (intro conjI impI)
  show "length (get_or_empty (addToConversationMemory u c x cm) (memory_key u c)) \<le> 20"
    by (rule length_after_add)
next
  assume h: "length xs = 25 \<and> get_or_empty cm (memory_key u c) = []"
  then have e: "get_or_empty (append_all u c xs cm) (memory_key u c) = drop 5 xs"
    using append_all_last20 [of cm u c xs] by (simp add: Let_def)
  show "get_or_empty (append_all u c xs cm) (memory_key u c) = drop 5 xs"
    by (rule e)
  show "length (get_or_empty (append_all u c xs cm) (memory_key u c)) = 20"
    using h by (simp add: e)
qed


subsection \<open>The pending record\<close>

lemma filter_drop_le: "length (filter P (drop n xs)) \<le> length (filter P xs)"
proof -
  have "length (filter P xs) = length (filter P (take n xs)) + length (filter P (drop n xs))"
    by (metis append_take_drop_id filter_append length_append)
  then show ?thesis by simp
qed

lemma pending_count_add:
  "\<not> is_pending x \<Longrightarrow> pending_count (addToConversationMemory u c x cm) k \<le> pending_count cm k"
proof (cases "k = memory_key u c")
  case True
  assume x: "\<not> is_pending x"
  let ?m = "get_or_empty cm (memory_key u c) @ [x]"
  have "pending_count (addToConversationMemory u c x cm) k \<le> length (filter is_pending ?m)"
    unfolding pending_count_def True get_or_empty_add Let_def
    by (simp only: filter_drop_le split: if_split) simp
  also have "\<dots> = pending_count cm k"
    using x by (simp add: pending_count_def True)
  finally show ?thesis .
next
  case False
  then show ?thesis
    by (simp add: pending_count_def addToConversationMemory_def get_or_empty_def Let_def)
qed

lemma pending_count_set:
  "pending_count cm k \<le> 1 \<Longrightarrow> pending_count (setPendingExtractedData u c d t cm) k \<le> 1"
  by (simp add: pending_count_def setPendingExtractedData_def get_or_empty_def Let_def)

lemma pending_count_clear_pending:
  "pending_count cm k \<le> 1 \<Longrightarrow> pending_count (clearPendingExtractedData u c cm) k \<le> 1"
  by (simp add: pending_count_def clearPendingExtractedData_def get_or_empty_def Let_def)

lemma pending_count_clear:
  "pending_count cm k \<le> 1 \<Longrightarrow> pending_count (clearConversationMemory u c cm) k \<le> 1"
  by (simp add: pending_count_def clearConversationMemory_def get_or_empty_def)

lemma pending_count_step:
  assumes "pending_count cm k \<le> 1"
  shows "pending_count (apply_memory_op x cm) k \<le> 1"
proof -
  obtain u c op where x: "x = (u, c, op)"
    by (cases x) auto
  show ?thesis
  proof (cases op)
    case (Add_intent_detection m i t)
    have "pending_count (addToConversationMemory u c (Intent_detection m i t) cm) k \<le> pending_count cm k"
      by (rule pending_count_add) simp
    with assms show ?thesis unfolding x Add_intent_detection apply_memory_op.simps by (rule le_trans [rotated])
  next
    case (Add_conversation m r t)
    have "pending_count (addToConversationMemory u c (Conversation m r t) cm) k \<le> pending_count cm k"
      by (rule pending_count_add) simp
    with assms show ?thesis unfolding x Add_conversation apply_memory_op.simps by (rule le_trans [rotated])
  next
    case (Set_pending d t)
    show ?thesis unfolding x Set_pending apply_memory_op.simps
      using assms by (rule pending_count_set)
  next
    case Clear_pending
    show ?thesis unfolding x Clear_pending apply_memory_op.simps
      using assms by (rule pending_count_clear_pending)
  next
    case Clear_memory
    show ?thesis unfolding x Clear_memory apply_memory_op.simps
      using assms by (rule pending_count_clear)
  qed
qed

lemma pending_count_run:
  "pending_count cm k \<le> 1 \<Longrightarrow> pending_count (run_memory_ops ops cm) k \<le> 1"
proof (induction ops arbitrary: cm)
  case Nil
  then show ?case by simp
next
  case (Cons x xs)
  have "pending_count (apply_memory_op x cm) k \<le> 1"
    using Cons.prems by (rule pending_count_step)
  then have "pending_count (run_memory_ops xs (apply_memory_op x cm)) k \<le> 1"
    by (rule Cons.IH)
  then show ?case by simp
qed

lemma pending_after_set:
  "filter is_pending (get_or_empty (setPendingExtractedData u c d t cm) (memory_key u c)) =
     [Pending_extracted_data d t]"
  by (simp add: setPendingExtractedData_def get_or_empty_def Let_def)

lemma find_filter_hd: "find P xs = (case filter P xs of [] \<Rightarrow> None | x # _ \<Rightarrow> Some x)"
  by (induction xs) auto

lemma get_pending_by_filter:
  "getPendingExtractedData u c cm =
     (case filter is_pending (get_or_empty cm (memory_key u c)) of
        [] \<Rightarrow> Null | p # _ \<Rightarrow> pending_data (Some p))"
  by (simp add: getPendingExtractedData_def Let_def find_filter_hd split: list.split)

lemma pending_after_clear:
  "filter is_pending (get_or_empty (clearPendingExtractedData u c cm) (memory_key u c)) = []"
  by (simp add: clearPendingExtractedData_def get_or_empty_def Let_def)

text \<open>
  C8. In every store that a run of the module's operations (on any conversations) builds
  from the empty one, each key holds at most one pending record. Whatever the store held,
  two calls of \<open>setPendingExtractedData\<close> leave exactly one pending record, the second,
  and \<open>getPendingExtractedData\<close> returns its data; \<open>getPendingExtractedData\<close> returns
  the data of the first pending record and \<open>null\<close> when there is none; after
  \<open>clearPendingExtractedData\<close> there is none.
\<close>

theorem pending_record_singleton:
  "pending_count (run_memory_ops ops empty_memory) key \<le> 1 \<and>
   filter is_pending
     (get_or_empty
        (setPendingExtractedData u c d2 t2 (setPendingExtractedData u c d1 t1 cm))
        (memory_key u c)) = [Pending_extracted_data d2 t2] \<and>
   getPendingExtractedData u c
     (setPendingExtractedData u c d2 t2 (setPendingExtractedData u c d1 t1 cm)) = d2 \<and>
   getPendingExtractedData u c cm =
     (case filter is_pending (get_or_empty cm (memory_key u c)) of
        [] \<Rightarrow> Null | p # _ \<Rightarrow> pending_data (Some p)) \<and>
   filter is_pending (get_or_empty (clearPendingExtractedData u c cm) (memory_key u c)) = [] \<and>
   getPendingExtractedData u c (clearPendingExtractedData u c cm) = Null"
proof (intro conjI)
  have "pending_count empty_memory key \<le> 1"
    by (simp add: pending_count_def empty_memory_def get_or_empty_def)
  then show "pending_count (run_memory_ops ops empty_memory) key \<le> 1"
    by (rule pending_count_run)
next
  show "getPendingExtractedData u c
     (setPendingExtractedData u c d2 t2 (setPendingExtractedData u c d1 t1 cm)) = d2"
    by (simp add: get_pending_by_filter pending_after_set)
next
  show "getPendingExtractedData u c (clearPendingExtractedData u c cm) = Null"
    by (simp add: get_pending_by_filter pending_after_clear)
qed (simp_all only: pending_after_set pending_after_clear get_pending_by_filter)

subsection \<open>Conversations with different keys\<close>

text \<open>
  C9, as stated, fails: the key is the concatenation of the two identifiers around a
  hyphen, so the distinct pairs \<open>(a-b, c)\<close> and \<open>(a, b-c)\<close> share the key \<open>a-b-c\<close>, and a
  pending record set for the first is read back for the second.
\<close>

theorem distinct_pairs_share_key:
  "(''a-b'', ''c'') \<noteq> (''a'', ''b-c'') \<and>
   getPendingExtractedData ''a'' ''b-c'' empty_memory = Null \<and>
   getPendingExtractedData ''a'' ''b-c''
     (setPendingExtractedData ''a-b'' ''c'' (Str ''x'') 0 empty_memory) = Str ''x''"
  by (simp add: getPendingExtractedData_def setPendingExtractedData_def memory_key_def
      get_or_empty_def empty_memory_def Let_def)

text \<open>
  C9, amended. When the key strings of two pairs differ, each of
  \<open>addToConversationMemory\<close>, \<open>setPendingExtractedData\<close>, \<open>clearPendingExtractedData\<close> and
  \<open>clearConversationMemory\<close> applied to the first pair leaves the store's entry of the
  second pair as it was: its history list and its pending record are unchanged.
\<close>

theorem other_key_unchanged:
  assumes "memory_key u c \<noteq> memory_key u' c'"
  shows "addToConversationMemory u c x cm (memory_key u' c') = cm (memory_key u' c') \<and>
         setPendingExtractedData u c d t cm (memory_key u' c') = cm (memory_key u' c') \<and>
         clearPendingExtractedData u c cm (memory_key u' c') = cm (memory_key u' c') \<and>
         clearConversationMemory u c cm (memory_key u' c') = cm (memory_key u' c') \<and>
         getPendingExtractedData u' c' (addToConversationMemory u c x cm) =
           getPendingExtractedData u' c' cm \<and>
         getPendingExtractedData u' c' (setPendingExtractedData u c d t cm) =
           getPendingExtractedData u' c' cm \<and>
         getPendingExtractedData u' c' (clearPendingExtractedData u c cm) =
           getPendingExtractedData u' c' cm \<and>
         getPendingExtractedData u' c' (clearConversationMemory u c cm) =
           getPendingExtractedData u' c' cm"
  using assms
  by (simp add: addToConversationMemory_def setPendingExtractedData_def
      clearPendingExtractedData_def clearConversationMemory_def getPendingExtractedData_def
      get_or_empty_def Let_def)

theorem other_key_unchanged_witness:
  "memory_key ''1'' ''default'' \<noteq> memory_key ''2'' ''default'' \<and>
   setPendingExtractedData ''1'' ''default'' (Str ''x'') 0 empty_memory (memory_key ''2'' ''default'') =
     empty_memory (memory_key ''2'' ''default'') \<and>
   getPendingExtractedData ''2'' ''default''
     (setPendingExtractedData ''1'' ''default'' (Str ''x'') 0 empty_memory) =
     getPendingExtractedData ''2'' ''default'' empty_memory"
proof -
  have h: "memory_key ''1'' ''default'' \<noteq> memory_key ''2'' ''default''"
    by (simp add: memory_key_def)
  show ?thesis
    using h other_key_unchanged [OF h, of undefined empty_memory "Str ''x''" 0]
    by simp
qed

theorem memory_capped_at_20_witness:
  "length (replicate 25 (Conversation ''hi'' ''hello'' 0)) = 25 \<and>
   get_or_empty empty_memory (memory_key ''1'' ''default'') = [] \<and>
   length (get_or_empty
     (append_all ''1'' ''default'' (replicate 25 (Conversation ''hi'' ''hello'' 0)) empty_memory)
     (memory_key ''1'' ''default'')) = 20"
proof -
  have h: "length (replicate 25 (Conversation ''hi'' ''hello'' 0)) = 25 \<and>
           get_or_empty empty_memory (memory_key ''1'' ''default'') = []"
    by (simp add: get_or_empty_def empty_memory_def)
  show ?thesis
    using h memory_capped_at_20 [of "''1''" "''default''" undefined empty_memory
        "replicate 25 (Conversation ''hi'' ''hello'' 0)"]
    by blast
qed


section \<open>Properties of the response parser\<close>

lemma find_map_comp: "find P (map f xs) = map_option f (find (\<lambda>x. P (f x)) xs)"
  by (induction xs) auto

lemma track_depth_step:
  "fst \<sigma> > 0 \<Longrightarrow> fst (track \<sigma> c) \<noteq> 0 \<Longrightarrow> fst (track \<sigma> c) > 0"
proof -
  obtain d q e where s: "\<sigma> = (d, q, e)"
    by (cases \<sigma>) auto
  assume "fst \<sigma> > 0" "fst (track \<sigma> c) \<noteq> 0"
  then show ?thesis
    unfolding s by (cases e) (simp_all split: if_splits)
qed

lemma find_prefixes_split:
  "find (\<lambda>p. Q p) (prefixes cs) =
     (if Q [] then Some [] else find (\<lambda>p. p \<noteq> [] \<and> Q p) (prefixes cs))"
  by (cases cs) (auto simp: find_map_comp)

lemma scan_object_shortest:
  "d > 0 \<Longrightarrow>
   scan_object seen d q e rest =
     map_option (\<lambda>p. seen @ p)
       (find (\<lambda>p. p \<noteq> [] \<and> fst (foldl track (d, q, e) p) = 0) (prefixes rest))"
proof (induction rest arbitrary: seen d q e)
  case Nil
  then show ?case by simp
next
  case (Cons c cs)
  obtain d' q' e' where t: "track (d, q, e) c = (d', q', e')"
    by (cases "track (d, q, e) c") auto
  have rhs: "find (\<lambda>p. p \<noteq> [] \<and> fst (foldl track (d, q, e) p) = 0) (prefixes (c # cs)) =
        (if d' = 0 then Some [c]
         else map_option ((#) c)
           (find (\<lambda>p. p \<noteq> [] \<and> fst (foldl track (d', q', e') p) = 0) (prefixes cs)))"
    using find_prefixes_split [of "\<lambda>p. fst (foldl track (d', q', e') p) = 0" cs]
    by (simp add: find_map_comp t)
  show ?case
  proof (cases "d' = 0")
    case True
    have sc: "scan_object seen d q e (c # cs) = Some (seen @ [c])"
      using t True Cons.prems by (cases e) (simp_all split: if_splits)
    have "map_option (\<lambda>p. seen @ p)
        (find (\<lambda>p. p \<noteq> [] \<and> fst (foldl track (d, q, e) p) = 0) (prefixes (c # cs))) =
        Some (seen @ [c])"
      by (simp only: rhs True) simp
    with sc show ?thesis by (simp only:)
  next
    case False
    then have pos: "d' > 0"
      using track_depth_step [of "(d, q, e)" c] Cons.prems t by simp
    have sc: "scan_object seen d q e (c # cs) = scan_object (seen @ [c]) d' q' e' cs"
      using t False by (cases e) (auto split: if_splits)
    have "map_option (\<lambda>p. seen @ p)
        (find (\<lambda>p. p \<noteq> [] \<and> fst (foldl track (d, q, e) p) = 0) (prefixes (c # cs))) =
        map_option (\<lambda>p. (seen @ [c]) @ p)
          (find (\<lambda>p. p \<noteq> [] \<and> fst (foldl track (d', q', e') p) = 0) (prefixes cs))"
      by (simp only: rhs False) (simp add: option.map_comp comp_def)
    with sc Cons.IH [OF pos, of "seen @ [c]" q' e'] show ?thesis by (simp only:)
  qed
qed

lemma single_append: "(@) [c] = (#) c"
  by (rule ext) simp

lemma scan_object_first_balanced:
  "scan_object [] 0 False False (CHR ''{'' # rest) = first_balanced_object (CHR ''{'' # rest)"
proof -
  have "scan_object [] 0 False False (CHR ''{'' # rest) = scan_object [CHR ''{''] 1 False False rest"
    by simp
  also have "\<dots> = map_option (\<lambda>p. [CHR ''{''] @ p)
       (find (\<lambda>p. p \<noteq> [] \<and> fst (foldl track (1, False, False) p) = 0) (prefixes rest))"
    by (rule scan_object_shortest) simp
  also have "\<dots> = first_balanced_object (CHR ''{'' # rest)"
    using find_prefixes_split [of "\<lambda>p. fst (foldl track (1, False, False) p) = 0" rest]
    by (simp add: first_balanced_object_def depth_after_def find_map_comp)
  finally show ?thesis .
qed

lemma extractValidJson_spec:
  "extractValidJson str =
     (case JSON_parse str of
        Some v \<Rightarrow> v
      | None \<Rightarrow>
          (case first_balanced_object (dropWhile (\<lambda>c. c \<noteq> CHR ''{'') (js_trim str)) of
             None \<Rightarrow> Null
           | Some sub \<Rightarrow> (case JSON_parse sub of None \<Rightarrow> Null | Some v \<Rightarrow> v)))"
proof (cases "dropWhile (\<lambda>c. c \<noteq> CHR ''{'') (js_trim str)")
  case Nil
  show ?thesis
    unfolding extractValidJson_def Let_def Nil first_balanced_object_def
    by (simp split: option.split)
next
  case (Cons c rest)
  then have "c = CHR ''{''"
    using hd_dropWhile [of "\<lambda>c. c \<noteq> CHR ''{''" "js_trim str"] by auto
  then show ?thesis
    unfolding extractValidJson_def Let_def Cons
    using scan_object_first_balanced [of rest]
    by (simp split: option.split)
qed

lemmas json_simps = JSON_parse_def lex_start_def json_space_def is_digit_def is_lower_def
  number_char_def json_number_def json_exponent_def digits_val_def digit_val_def scale10_def
  word_value_def

lemma extractValidJson_fenced: "extractValidJson fenced_example = Obj [(''a'', Num (Fin 1))]"
  by (simp add: extractValidJson_def fenced_example_def js_trim_def js_space_def json_simps)

lemma extractValidJson_noisy: "extractValidJson noisy_example = Obj [(''a'', Num (Fin 1))]"
  by (simp add: extractValidJson_def noisy_example_def js_trim_def js_space_def json_simps)

lemma parseGeminiResponse_fenced:
  "parseGeminiResponse P fenced_example = Inr (Obj [(''a'', Num (Fin 1))])"
  by (simp add: parseGeminiResponse_def fenced_example_def strip_leading_def
      strip_closing_fence_def startsWith_def endsWith_def js_trim_def js_space_def json_simps)

lemma parseGeminiResponse_noisy:
  "parseGeminiResponse P noisy_example =
     Inl (Error (''Failed to parse AI response as JSON: '' @ syntax_error_message P noisy_example))"
  by (simp add: parseGeminiResponse_def noisy_example_def startsWith_def js_trim_def
      js_space_def json_simps)

text \<open>
  C2, as stated, fails: the whole-string parse comes first and accepts every JSON text,
  also one that is no object. The input \<open>[1]\<close> has no brace at all and the input
  \<open>"{"\<close> (a JSON string) has one unbalanced brace; neither holds a balanced
  brace-delimited object, and \<open>extractValidJson\<close> returns the array and the string, not
  \<open>null\<close>.
\<close>

theorem valid_json_without_object_not_null:
  "first_balanced_object (dropWhile (\<lambda>c. c \<noteq> CHR ''{'') (js_trim ''[1]'')) = None \<and>
   extractValidJson ''[1]'' = Arr [Num (Fin 1)] \<and>
   first_balanced_object (dropWhile (\<lambda>c. c \<noteq> CHR ''{'') (js_trim ''\"{\"'')) = None \<and>
   extractValidJson ''\"{\"'' = Str ''{''"
  by (simp add: extractValidJson_def first_balanced_object_def depth_after_def js_trim_def
      js_space_def json_simps)

text \<open>
  C2, amended. \<open>extractValidJson\<close> returns the result of the whole-string parse when
  that succeeds; when it fails, it takes the text from the first brace on, finds the
  shortest prefix at whose end the brace depth (counted outside quotes, one character
  skipped after a backslash) is back at zero, and returns the parse of that prefix. So the
  fenced reply and the reply with prose around the object both give \<open>{a:1}\<close>, and when the
  whole-string parse fails and there is no such prefix (no brace, or unbalanced braces) or
  the prefix is not JSON, the result is \<open>null\<close>.
\<close>

theorem extractValidJson_recovers_first_object:
  "extractValidJson fenced_example = Obj [(''a'', Num (Fin 1))] \<and>
   extractValidJson noisy_example = Obj [(''a'', Num (Fin 1))] \<and>
   extractValidJson str =
     (case JSON_parse str of
        Some v \<Rightarrow> v
      | None \<Rightarrow>
          (case first_balanced_object (dropWhile (\<lambda>c. c \<noteq> CHR ''{'') (js_trim str)) of
             None \<Rightarrow> Null
           | Some sub \<Rightarrow> (case JSON_parse sub of None \<Rightarrow> Null | Some v \<Rightarrow> v))) \<and>
   (JSON_parse str = None \<and>
    first_balanced_object (dropWhile (\<lambda>c. c \<noteq> CHR ''{'') (js_trim str)) = None \<longrightarrow>
      extractValidJson str = Null)"
proof (intro conjI impI)
  show "extractValidJson fenced_example = Obj [(''a'', Num (Fin 1))]"
    by (rule extractValidJson_fenced)
  show "extractValidJson noisy_example = Obj [(''a'', Num (Fin 1))]"
    by (rule extractValidJson_noisy)
  show "extractValidJson str =
     (case JSON_parse str of
        Some v \<Rightarrow> v
      | None \<Rightarrow>
          (case first_balanced_object (dropWhile (\<lambda>c. c \<noteq> CHR ''{'') (js_trim str)) of
             None \<Rightarrow> Null
           | Some sub \<Rightarrow> (case JSON_parse sub of None \<Rightarrow> Null | Some v \<Rightarrow> v)))"
    by (rule extractValidJson_spec)
next
  assume "JSON_parse str = None \<and>
    first_balanced_object (dropWhile (\<lambda>c. c \<noteq> CHR ''{'') (js_trim str)) = None"
  then show "extractValidJson str = Null"
    by (simp add: extractValidJson_spec)
qed

theorem extractValidJson_recovers_first_object_witness:
  "JSON_parse ''{\"a\":1'' = None \<and>
   first_balanced_object (dropWhile (\<lambda>c. c \<noteq> CHR ''{'') (js_trim ''{\"a\":1'')) = None \<and>
   extractValidJson ''{\"a\":1'' = Null"
proof -
  have h: "JSON_parse ''{\"a\":1'' = None \<and>
      first_balanced_object (dropWhile (\<lambda>c. c \<noteq> CHR ''{'') (js_trim ''{\"a\":1'')) = None"
    by (simp add: first_balanced_object_def depth_after_def js_trim_def js_space_def json_simps)
  show ?thesis
    using h extractValidJson_recovers_first_object [of "''{\"a\":1''"] by blast
qed


section \<open>Properties of intent detection\<close>

lemma detectIntent_try_fallback_only:
  "detectIntent_try detectIntentFallback P llm m u c now st = Inl e \<Longrightarrow>
   fst (detectIntent P llm m u c now st) =
     Inl (ReferenceError ''detectIntentFallback is not defined'')"
  by (simp add: detectIntent_def detectIntent_with_def detectIntentFallback_def Let_def)

text \<open>
  Had the module a binding for the fallback classifier that returns a result, then
  \<open>detectIntent\<close> would return a result for every outcome of the model call: the parsed
  reply when the \<open>try\<close> block succeeds, the fallback's result in every other case.
\<close>

lemma detectIntent_with_total_fallback:
  assumes "\<And>m. fb m = Inr (f m)"
  shows "fst (detectIntent_with fb P llm m u c now st) =
     (case detectIntent_try fb P llm m u c now st of
        Inr (parsed, st') \<Rightarrow> Inr parsed | Inl e \<Rightarrow> Inr (f m))"
  by (simp add: detectIntent_with_def assms Let_def split: sum.split prod.split)

text \<open>The older \<open>detectIntent\<close> returns its constant result on every failure.\<close>

lemma openai_detectIntent_failure:
  "openai_detectIntent (Throws e) m = general_inquiry \<and>
   (JSON_parse r = None \<longrightarrow> openai_detectIntent (Responds r) m = general_inquiry)"
  by (simp add: openai_detectIntent_def)

text \<open>
  C1 on the code. The model call rejects with a network error, \<open>fetch failed\<close>: the
  \<open>catch\<close> block of \<open>detectIntent\<close> calls \<open>detectIntentFallback\<close>, which is not defined, and
  \<open>detectIntent\<close> rejects with a \<open>ReferenceError\<close> in place of returning an intent result,
  whatever the message, the conversation and the state are.
\<close>

theorem detectIntent_rejects_on_network_error:
  "detectIntent P (Throws (Error ''fetch failed'')) msg userId conversationId now st =
     (Inl (ReferenceError ''detectIntentFallback is not defined''), st)"
proof (cases "modelConnectionWorking st = Some False")
  case True
  then show ?thesis
    by (simp add: detectIntent_def detectIntent_with_def detectIntent_try_def
        detectIntentFallback_def startsWith_def)
next
  case False
  then show ?thesis
    by (simp add: detectIntent_def detectIntent_with_def detectIntent_try_def
        detectIntentFallback_def startsWith_def)
qed


section \<open>Properties of the handlers\<close>

lemma createInvoice_error_state:
  "fst (createInvoice P i st) = Inl e \<Longrightarrow> snd (createInvoice P i st) = st"
  by (simp add: createInvoice_def Let_def split: option.splits)

lemma createInvoice_success_state:
  "fst (createInvoice P i st) = Inr invoice \<Longrightarrow>
   invoices (snd (createInvoice P i st)) = invoices st @ [invoice] \<and>
   transactions (snd (createInvoice P i st)) = transactions st"
  by (auto simp: createInvoice_def Let_def split: option.splits)




text \<open>
  C3. When \<open>client\<close> or \<open>amount\<close> of the merged entities is falsy, \<open>handleInvoiceCreation\<close>
  returns the clarifying message with \<open>data: null\<close> and the backend state is as before: no
  call of \<open>createInvoice\<close>. When both are truthy, \<open>createInvoice\<close> is called once, with the
  client as given and the amount \<open>parseFloat\<close> reads; if it throws, the reply is the apology
  with \<open>data: null\<close> and the state is as before; if it returns, \<open>data\<close> is the invoice it
  appended. The handler returns a reply in every case.
\<close>

theorem invoice_handler_guarded:
  "(\<not> truthy (get_prop d ''client'') \<or> \<not> truthy (get_prop d ''amount'') \<longrightarrow>
      handleInvoiceCreation P d userId st =
        (\<lparr>reply_message = invoice_clarification, reply_data = Null\<rparr>, st)) \<and>
   (truthy (get_prop d ''client'') \<and> truthy (get_prop d ''amount'') \<longrightarrow>
      snd (handleInvoiceCreation P d userId st) =
        snd (createInvoice P (invoice_input P d userId) st) \<and>
      get_prop (invoice_input P d userId) ''client'' = get_prop d ''client'' \<and>
      get_prop (invoice_input P d userId) ''amount'' = Num (parseFloat (get_prop d ''amount'')) \<and>
      (case fst (createInvoice P (invoice_input P d userId) st) of
         Inl e \<Rightarrow>
           handleInvoiceCreation P d userId st =
             (\<lparr>reply_message = invoice_apology, reply_data = Null\<rparr>, st)
       | Inr invoice \<Rightarrow>
           reply_data (fst (handleInvoiceCreation P d userId st)) = invoice \<and>
           invoices (snd (handleInvoiceCreation P d userId st)) = invoices st @ [invoice]))"
proof (intro conjI impI)
  assume "\<not> truthy (get_prop d ''client'') \<or> \<not> truthy (get_prop d ''amount'')"
  then show "handleInvoiceCreation P d userId st =
        (\<lparr>reply_message = invoice_clarification, reply_data = Null\<rparr>, st)"
    by (auto simp: handleInvoiceCreation_def)
next
  assume h: "truthy (get_prop d ''client'') \<and> truthy (get_prop d ''amount'')"
  obtain r st' where c: "createInvoice P (invoice_input P d userId) st = (r, st')"
    by (cases "createInvoice P (invoice_input P d userId) st") auto
  show "snd (handleInvoiceCreation P d userId st) =
        snd (createInvoice P (invoice_input P d userId) st)"
    using h c by (cases r) (simp_all add: handleInvoiceCreation_def)
  show "get_prop (invoice_input P d userId) ''client'' = get_prop d ''client''"
    by (simp add: invoice_input_def)
  show "get_prop (invoice_input P d userId) ''amount'' = Num (parseFloat (get_prop d ''amount''))"
    by (simp add: invoice_input_def)
  show "case fst (createInvoice P (invoice_input P d userId) st) of
         Inl e \<Rightarrow>
           handleInvoiceCreation P d userId st =
             (\<lparr>reply_message = invoice_apology, reply_data = Null\<rparr>, st)
       | Inr invoice \<Rightarrow>
           reply_data (fst (handleInvoiceCreation P d userId st)) = invoice \<and>
           invoices (snd (handleInvoiceCreation P d userId st)) = invoices st @ [invoice]"
  proof (cases r)
    case (Inl e)
    then have "st' = st"
      using createInvoice_error_state [of P "invoice_input P d userId" st e] c by simp
    then show ?thesis
      using h c Inl by (simp add: handleInvoiceCreation_def)
  next
    case (Inr invoice)
    then have "invoices st' = invoices st @ [invoice]"
      using createInvoice_success_state [of P "invoice_input P d userId" st invoice] c by simp
    then show ?thesis
      using h c Inr by (simp add: handleInvoiceCreation_def)
  qed
qed

lemma jane_500_invoice:
  "fst (createInvoice utc_platform (invoice_input utc_platform jane_500 (Str ''1'')) initial_book) =
     Inr (Obj
       [(''id'', Num (Fin 1)), (''invoice_number'', Str ''INV-0001''),
        (''customer_name'', Str ''Jane''), (''amount'', Num (Fin 500)),
        (''description'', Str ''Service provided''), (''issue_date'', Str ''2025-01-15''),
        (''due_date'', Str ''2025-02-14''), (''status'', Str ''pending''),
        (''currency'', Str ''USD''), (''created_at'', Str ''2025-01-15T10:30:00.000Z''),
        (''user_id'', Str ''1'')])"
  by code_simp

theorem invoice_handler_guarded_witness:
  "\<not> truthy (get_prop [(''client'', Str ''Jane'')] ''amount'') \<and>
   handleInvoiceCreation utc_platform [(''client'', Str ''Jane'')] (Str ''1'') initial_book =
     (\<lparr>reply_message = invoice_clarification, reply_data = Null\<rparr>, initial_book) \<and>
   truthy (get_prop jane_500 ''client'') \<and> truthy (get_prop jane_500 ''amount'') \<and>
   get_prop (invoice_input utc_platform jane_500 (Str ''1'')) ''amount'' = Num (Fin 500) \<and>
   member (reply_data (fst (handleInvoiceCreation utc_platform jane_500 (Str ''1'') initial_book)))
     ''customer_name'' = Inr (Str ''Jane'')"
proof -
  have falsy: "\<not> truthy (get_prop [(''client'', Str ''Jane'')] ''amount'')"
    by simp
  have both: "truthy (get_prop jane_500 ''client'') \<and> truthy (get_prop jane_500 ''amount'')"
    by (simp add: jane_500_def)
  have amount: "parseFloat (get_prop jane_500 ''amount'') = Fin 500"
    by code_simp
  show ?thesis
    using falsy both amount jane_500_invoice
      invoice_handler_guarded [of "[(''client'', Str ''Jane'')]" utc_platform "Str ''1''" initial_book]
      invoice_handler_guarded [of jane_500 utc_platform "Str ''1''" initial_book]
    by simp
qed






section \<open>Properties of the cleaning of extracted data\<close>

lemma get_prop_clean_amount:
  "get_prop (clean_amount c f) k = (if k = f then cleaned_amount (get_prop c f) else get_prop c k)"
  by (auto simp: clean_amount_def cleaned_amount_def Let_def)

lemma get_prop_clean_date:
  "get_prop (clean_date P c f) k = (if k = f then cleaned_date P (get_prop c f) else get_prop c k)"
  by (auto simp: clean_date_def cleaned_date_def)

lemma get_prop_clamp_confidence:
  "get_prop (clamp_confidence c) k =
     (if k = ''confidence'' then
        (if num_greater (ToNumber (get_prop c ''confidence'')) 1 then Num (Fin 1)
         else if num_less (ToNumber (get_prop c ''confidence'')) 0 then Num (Fin 0)
         else get_prop c ''confidence'')
      else get_prop c k)"
  by (auto simp: clamp_confidence_def Let_def)

lemma get_prop_default_currency:
  "get_prop (default_currency c) k =
     (if k = ''currency'' then
        (if truthy (get_prop c ''currency'') then get_prop c ''currency'' else Str ''USD'')
      else get_prop c k)"
  by (auto simp: default_currency_def)

lemma get_prop_ensure_extractedFields:
  "get_prop (ensure_extractedFields c) k =
     (if k = ''extractedFields'' then
        (if isArray (get_prop c ''extractedFields'') then get_prop c ''extractedFields'' else Arr [])
      else get_prop c k)"
  by (auto simp: ensure_extractedFields_def)

lemmas get_prop_steps = get_prop_clean_amount get_prop_clean_date get_prop_clamp_confidence
  get_prop_default_currency get_prop_ensure_extractedFields

text \<open>
  C10, as stated, fails. A field that the input does not have is left out of the first
  step (the guard \<open>!== undefined\<close>): for the empty object, \<open>totalAmount\<close> of the result is
  \<open>undefined\<close>, neither \<open>null\<close> nor a number. A falsy date is left as it is: the empty
  string stays, and it is neither \<open>null\<close> nor a string that parses to a valid date.
\<close>

theorem absent_amount_and_empty_date_kept:
  "get_prop (validateAndCleanExtractedData utc_platform []) ''totalAmount'' = Undefined \<and>
   get_prop (validateAndCleanExtractedData utc_platform [(''invoiceDate'', Str [])])
     ''invoiceDate'' = Str [] \<and>
   \<not> isValidDate utc_platform (Str [])"
  by (simp add: validateAndCleanExtractedData_def get_prop_steps cleaned_amount_def
      cleaned_date_def Date_parse_def iso_date_shape_def utc_platform_def)

text \<open>
  C10, amended. In the record that \<open>validateAndCleanExtractedData\<close> returns, each of
  \<open>totalAmount\<close>, \<open>subtotal\<close> and \<open>taxAmount\<close> is as given when the input had \<open>null\<close> or
  nothing there, and otherwise the number \<open>parseFloat\<close> reads, or \<open>null\<close> when that is
  \<open>NaN\<close>; each of \<open>invoiceDate\<close> and \<open>dueDate\<close> is \<open>null\<close> when the input held a truthy
  value from which \<open>new Date\<close> builds no valid date, and as given otherwise; a confidence
  that is a finite number is clamped into the interval from 0 to 1; \<open>currency\<close> is \<open>USD\<close>
  when the input had none (or a falsy one); \<open>extractedFields\<close> is an array.
\<close>

theorem cleaned_record_fields:
  "get_prop (validateAndCleanExtractedData P d) ''totalAmount'' =
     cleaned_amount (get_prop d ''totalAmount'') \<and>
   get_prop (validateAndCleanExtractedData P d) ''subtotal'' =
     cleaned_amount (get_prop d ''subtotal'') \<and>
   get_prop (validateAndCleanExtractedData P d) ''taxAmount'' =
     cleaned_amount (get_prop d ''taxAmount'') \<and>
   get_prop (validateAndCleanExtractedData P d) ''invoiceDate'' =
     cleaned_date P (get_prop d ''invoiceDate'') \<and>
   get_prop (validateAndCleanExtractedData P d) ''dueDate'' =
     cleaned_date P (get_prop d ''dueDate'') \<and>
   get_prop (validateAndCleanExtractedData P (set_prop d ''confidence'' (Num (Fin c))))
     ''confidence'' = Num (Fin (max 0 (min 1 c))) \<and>
   get_prop (validateAndCleanExtractedData P d) ''currency'' =
     (if truthy (get_prop d ''currency'') then get_prop d ''currency'' else Str ''USD'') \<and>
   isArray (get_prop (validateAndCleanExtractedData P d) ''extractedFields'')"
  by (simp add: validateAndCleanExtractedData_def get_prop_steps)


section \<open>Properties of the extraction service\<close>

lemma map_of_set_prop [simp]:
  "map_of (set_prop kvs k v) k' = (if k = k' then Some v else map_of kvs k')"
  by (induction kvs) auto



subsection \<open>The matcher on a dollar-amount token\<close>

lemma rmatch_digit_Nil [simp]: "rmatch False digit k (p, [], caps) = None"
  by (simp add: digit_def)

lemma rmatch_digit_Cons [simp]:
  "rmatch False digit k (p, c # cs, caps) = (if is_digit c then k (Some c, cs, caps) else None)"
  by (simp add: digit_def is_digit_def)

lemma shorter_neq [simp]: "cs @ rest \<noteq> c # cs @ rest"
proof
  assume "cs @ rest = c # cs @ rest"
  then have "length (cs @ rest) = length (c # cs @ rest)" by simp
  then show False by simp
qed












lemma is_digit_comma [simp]: "\<not> is_digit (CHR '','')"
  by (simp add: is_digit_def)

lemma is_digit_dot [simp]: "\<not> is_digit (CHR ''.'')"
  by (simp add: is_digit_def)

lemma is_digit_dollar [simp]: "\<not> is_digit (CHR ''$'')"
  by (simp add: is_digit_def)







subsection \<open>The date field\<close>





end
